theory Spec2Isabelle
  imports Main "HOL-Library.AList"
begin

section \<open>Strings\<close>

text \<open>
  JavaScript strings are modelled as \<^typ>\<open>string\<close>: lists of 8-bit characters, that is,
  strings all of whose code units are below 256. \<open>length\<close> is then the \<open>.length\<close> of the
  source.
\<close>

definition isSpace :: "char \<Rightarrow> bool" where
  \<comment> \<open>the white space and line terminators that \<open>String.prototype.trim\<close> removes\<close>
  "isSpace c \<longleftrightarrow> c \<in> set [CHR 0x09, CHR 0x0A, CHR 0x0B, CHR 0x0C, CHR 0x0D, CHR 0x20, CHR 0xA0]"

definition trim :: "string \<Rightarrow> string" where
  "trim s = rev (dropWhile isSpace (rev (dropWhile isSpace s)))"

definition splitLines :: "string \<Rightarrow> string list" where
  \<comment> \<open>\<open>s.split('\n')\<close>: never empty, \<open>''''\<close> gives one empty line\<close>
  "splitLines s =
     foldr (\<lambda>c acc. if c = CHR 0x0A then [] # acc else (c # hd acc) # tl acc) s [[]]"

definition isAlnum :: "char \<Rightarrow> bool" where
  \<comment> \<open>the class \<open>[a-zA-Z0-9]\<close>\<close>
  "isAlnum c \<longleftrightarrow>
     c \<in> set ''abcdefghijklmnopqrstuvwxyzABCDEFGHIJKLMNOPQRSTUVWXYZ0123456789''"

definition upperCaseChars :: string where
  \<comment> \<open>the code units below 256 that \<open>toLowerCase\<close> changes: A to Z, and U+00C0 to U+00DE
     without the multiplication sign U+00D7\<close>
  "upperCaseChars =
     ''ABCDEFGHIJKLMNOPQRSTUVWXYZ'' @
     [CHR 0xC0, CHR 0xC1, CHR 0xC2, CHR 0xC3, CHR 0xC4, CHR 0xC5, CHR 0xC6, CHR 0xC7,
      CHR 0xC8, CHR 0xC9, CHR 0xCA, CHR 0xCB, CHR 0xCC, CHR 0xCD, CHR 0xCE, CHR 0xCF,
      CHR 0xD0, CHR 0xD1, CHR 0xD2, CHR 0xD3, CHR 0xD4, CHR 0xD5, CHR 0xD6, CHR 0xD8,
      CHR 0xD9, CHR 0xDA, CHR 0xDB, CHR 0xDC, CHR 0xDD, CHR 0xDE]"

definition lowerCaseChars :: string where
  \<comment> \<open>their images, 32 code units higher\<close>
  "lowerCaseChars =
     ''abcdefghijklmnopqrstuvwxyz'' @
     [CHR 0xE0, CHR 0xE1, CHR 0xE2, CHR 0xE3, CHR 0xE4, CHR 0xE5, CHR 0xE6, CHR 0xE7,
      CHR 0xE8, CHR 0xE9, CHR 0xEA, CHR 0xEB, CHR 0xEC, CHR 0xED, CHR 0xEE, CHR 0xEF,
      CHR 0xF0, CHR 0xF1, CHR 0xF2, CHR 0xF3, CHR 0xF4, CHR 0xF5, CHR 0xF6, CHR 0xF8,
      CHR 0xF9, CHR 0xFA, CHR 0xFB, CHR 0xFC, CHR 0xFD, CHR 0xFE]"

definition toLowerChar :: "char \<Rightarrow> char" where
  "toLowerChar c = (case map_of (zip upperCaseChars lowerCaseChars) c of None \<Rightarrow> c | Some l \<Rightarrow> l)"

definition toLowerCase :: "string \<Rightarrow> string" where
  \<comment> \<open>\<open>String.prototype.toLowerCase\<close> on code units below 256\<close>
  "toLowerCase s = map toLowerChar s"

definition digitChar :: "nat \<Rightarrow> char" where
  "digitChar d = ''0123456789'' ! d"

fun showNat :: "nat \<Rightarrow> string" where
  "showNat n = (if n < 10 then [digitChar n] else showNat (n div 10) @ [digitChar (n mod 10)])"

declare showNat.simps [simp del]

section \<open>The host tree\<close>

datatype namespace = HTML | SVG | MathML | OtherNamespace

datatype node =
    Element (namespaceOf: namespace) (tagName: string) (attributes: "(string \<times> string) list")
      (childNodes: "node list")
  | Text string

fun getAttribute :: "node \<Rightarrow> string \<Rightarrow> string option" where
  "getAttribute (Element ns t as cs) a = map_of as a"
| "getAttribute (Text s) a = None"

fun titleProperty :: "node \<Rightarrow> string option" where
  \<comment> \<open>\<open>element.title\<close>: on an HTML element (and on an SVG \<open>style\<close> element) it reflects the
     title attribute, the empty string when the attribute is missing; on any other
     element it is \<open>undefined\<close> (\<open>None\<close>). A form with a control named \<open>title\<close>, which
     shadows the property, is outside this model.\<close>
  "titleProperty (Element ns t as cs) =
     (if ns = HTML \<or> (ns = SVG \<and> t = ''style'')
      then Some (case map_of as ''title'' of None \<Rightarrow> [] | Some v \<Rightarrow> v)
      else None)"
| "titleProperty (Text s) = None"

fun isElement :: "node \<Rightarrow> bool" where
  "isElement (Element ns t as cs) = True"
| "isElement (Text s) = False"

fun descendants :: "node \<Rightarrow> node list" where
  \<comment> \<open>the element descendants in document order, the node itself excluded\<close>
  "descendants (Element ns t as cs) = concat (map (\<lambda>c. if isElement c then c # descendants c else []) cs)"
| "descendants (Text s) = []"

fun textContent :: "node \<Rightarrow> string" where
  "textContent (Text s) = s"
| "textContent (Element ns t as cs) = concat (map textContent cs)"

definition querySelectorAttr :: "node \<Rightarrow> string \<Rightarrow> node option" where
  \<comment> \<open>\<open>element.querySelector('[a]')\<close>\<close>
  "querySelectorAttr e a = find (\<lambda>d. getAttribute d a \<noteq> None) (descendants e)"

fun hasTag :: "string list \<Rightarrow> node \<Rightarrow> bool" where
  "hasTag ts (Element ns t as cs) = (t \<in> set ts)"
| "hasTag ts (Text s) = False"

section \<open>Identity: \<open>CalendarDOM.getCalendarName\<close> and \<open>CalendarDOM.getCalendarId\<close>\<close>

definition nameFromTitle :: "node \<Rightarrow> string option" where
  \<comment> \<open>Method 1: the \<open>title\<close> property of the first descendant that has a title attribute\<close>
  "nameFromTitle e =
     (case querySelectorAttr e ''title'' of
        None \<Rightarrow> None
      | Some titleElement \<Rightarrow>
          (case titleProperty titleElement of
             None \<Rightarrow> None
           | Some t \<Rightarrow> if t \<noteq> [] \<and> trim t \<noteq> [] then Some (trim t) else None))"

definition nameFromChildLabel :: "node \<Rightarrow> string option" where
  \<comment> \<open>Method 2: the first descendant that has an aria-label attribute\<close>
  "nameFromChildLabel e =
     (case querySelectorAttr e ''aria-label'' of
        None \<Rightarrow> None
      | Some ariaLabelElement \<Rightarrow>
          (case getAttribute ariaLabelElement ''aria-label'' of
             None \<Rightarrow> None
           | Some l \<Rightarrow> if l \<noteq> [] \<and> trim l \<noteq> [] then Some (trim l) else None))"

definition nameFromOwnLabel :: "node \<Rightarrow> string option" where
  \<comment> \<open>Method 3: the element's own aria-label\<close>
  "nameFromOwnLabel e =
     (case getAttribute e ''aria-label'' of
        None \<Rightarrow> None
      | Some l \<Rightarrow> if l \<noteq> [] \<and> trim l \<noteq> [] then Some (trim l) else None)"

definition nameFromTextElements :: "node \<Rightarrow> string option" where
  \<comment> \<open>Method 4: the first span or div descendant with a short text\<close>
  "nameFromTextElements e =
     find (\<lambda>text. text \<noteq> [] \<and> length text > 0 \<and> length text < 100)
       (map (\<lambda>textEl. trim (textContent textEl))
          (filter (hasTag [''span'', ''div'']) (descendants e)))"

definition nameFromTextContent :: "node \<Rightarrow> string option" where
  \<comment> \<open>Method 5: the first non-empty line of the element's text\<close>
  "nameFromTextContent e =
     (let textContent = trim (textContent e) in
      if textContent \<noteq> [] then
        (let lines = filter (\<lambda>line. length line > 0) (map trim (splitLines textContent)) in
         case lines of
           [] \<Rightarrow> None
         | line # _ \<Rightarrow> if length line < 100 then Some line else None)
      else None)"

definition nameFromPosition :: "nat option \<Rightarrow> string" where
  \<comment> \<open>Method 6: \<open>siblings.indexOf(element)\<close> is \<open>-1\<close> for an element without parent\<close>
  "nameFromPosition idx = ''Calendar '' @ showNat (case idx of None \<Rightarrow> 0 | Some i \<Rightarrow> i + 1)"

definition getCalendarName :: "node \<Rightarrow> nat option \<Rightarrow> string" where
  \<comment> \<open>the second argument is the element's index among its parent's children
     (\<open>None\<close>: no parent)\<close>
  "getCalendarName element idx =
     (case nameFromTitle element of Some n \<Rightarrow> n | None \<Rightarrow>
     (case nameFromChildLabel element of Some n \<Rightarrow> n | None \<Rightarrow>
     (case nameFromOwnLabel element of Some n \<Rightarrow> n | None \<Rightarrow>
     (case nameFromTextElements element of Some n \<Rightarrow> n | None \<Rightarrow>
     (case nameFromTextContent element of Some n \<Rightarrow> n | None \<Rightarrow>
      nameFromPosition idx)))))"

definition possibleAttributes :: "string list" where
  "possibleAttributes =
     [''data-calendarid'', ''data-eventid'', ''data-calendar-id'', ''data-id'', ''id'', ''data-testid'']"

definition truthy :: "string option \<Rightarrow> string option" where
  \<comment> \<open>\<open>if (value)\<close> on the result of \<open>getAttribute\<close>: \<open>null\<close> and the empty string are falsy\<close>
  "truthy v = (case v of None \<Rightarrow> None | Some s \<Rightarrow> if s = [] then None else Some s)"

definition childAttribute :: "node \<Rightarrow> string \<Rightarrow> string option" where
  \<comment> \<open>the attribute's value on the first descendant that carries it\<close>
  "childAttribute element attr =
     (case querySelectorAttr element attr of
        None \<Rightarrow> None
      | Some childWithAttr \<Rightarrow> truthy (getAttribute childWithAttr attr))"

fun idFromAttributes :: "node \<Rightarrow> string list \<Rightarrow> string option" where
  "idFromAttributes element [] = None"
| "idFromAttributes element (attr # rest) =
     (case truthy (getAttribute element attr) of
        Some v \<Rightarrow> Some v
      | None \<Rightarrow>
          (case childAttribute element attr of
             Some v \<Rightarrow> Some v
           | None \<Rightarrow> idFromAttributes element rest))"

definition generatedId :: "node \<Rightarrow> nat option \<Rightarrow> string" where
  "generatedId element idx =
     (let name = getCalendarName element idx;
          textContent = trim (textContent element);
          index = (case idx of None \<Rightarrow> 0 | Some i \<Rightarrow> i);
          baseId = toLowerCase (map (\<lambda>c. if isAlnum c then c else CHR ''_'') name);
          textHash = (if length textContent > 0
                      then take 10 (toLowerCase (filter isAlnum textContent)) else [])
      in ''cal_'' @ baseId @ ''_'' @ textHash @ ''_'' @ showNat index)"

definition getCalendarId :: "node \<Rightarrow> nat option \<Rightarrow> string" where
  "getCalendarId element idx =
     (case idFromAttributes element possibleAttributes of
        Some v \<Rightarrow> v
      | None \<Rightarrow> generatedId element idx)"

section \<open>Visibility controller\<close>

text \<open>
  The toggle control of a calendar item, as far as the source reads and writes it:
  two attributes (\<open>None\<close>: \<open>getAttribute\<close> returns \<open>null\<close>), the \<open>checked\<close> property
  (\<open>None\<close>: \<open>undefined\<close>, as on an element that is not an input) and the \<open>type\<close> property.
\<close>

record checkbox =
  ariaChecked :: "string option"
  checked :: "bool option"
  ariaPressed :: "string option"
  inputType :: "string option"

datatype dom_event = Click | MouseDown | MouseUp | MouseClick | KeyDownSpace

text \<open>
  What the page does when an event reaches a control is outside the program: it is a
  parameter. \<open>None\<close> means that the call throws, the control left as it was.
\<close>

type_synonym host = "dom_event \<Rightarrow> checkbox \<Rightarrow> checkbox option"

datatype interaction = Dispatch dom_event | DirectSet bool

definition checkboxState :: "checkbox \<Rightarrow> bool" where
  "checkboxState cb \<longleftrightarrow>
     ariaChecked cb = Some ''true'' \<or> checked cb = Some True \<or> ariaPressed cb = Some ''true''"

definition boolString :: "bool \<Rightarrow> string" where
  "boolString b = (if b then ''true'' else ''false'')"

definition directSet :: "checkbox \<Rightarrow> bool \<Rightarrow> checkbox" where
  \<comment> \<open>Method 4 of \<open>forceCalendarState\<close>\<close>
  "directSet cb visible =
     (let cb1 = (if ariaChecked cb \<noteq> None then cb\<lparr>ariaChecked := Some (boolString visible)\<rparr> else cb);
          cb2 = (if ariaPressed cb1 \<noteq> None then cb1\<lparr>ariaPressed := Some (boolString visible)\<rparr> else cb1)
      in if inputType cb2 = Some ''checkbox'' then cb2\<lparr>checked := Some visible\<rparr> else cb2)"

fun dispatchEvents :: "host \<Rightarrow> dom_event list \<Rightarrow> checkbox \<Rightarrow> checkbox \<times> interaction list \<times> bool" where
  \<comment> \<open>the control afterwards, the events dispatched, and whether all of them returned\<close>
  "dispatchEvents h [] cb = (cb, [], True)"
| "dispatchEvents h (ev # evs) cb =
     (case h ev cb of
        None \<Rightarrow> (cb, [Dispatch ev], False)
      | Some cb' \<Rightarrow>
          (case dispatchEvents h evs cb' of (cb'', acts, ok) \<Rightarrow> (cb'', Dispatch ev # acts, ok)))"

definition forceCalendarState :: "host \<Rightarrow> checkbox \<Rightarrow> bool \<Rightarrow> checkbox \<times> interaction list" where
  "forceCalendarState h cb visible =
     (case dispatchEvents h [MouseDown, MouseUp, MouseClick, KeyDownSpace] cb of
        (cb', acts, ok) \<Rightarrow>
          if ok then (directSet cb' visible, acts @ [DirectSet visible]) else (cb', acts))"

definition toggleCalendarVisibility :: "host \<Rightarrow> checkbox \<Rightarrow> bool \<Rightarrow> checkbox \<times> bool \<times> interaction list" where
  \<comment> \<open>the control afterwards, whether the delayed verification was scheduled, and the
     interactions performed\<close>
  "toggleCalendarVisibility h cb visible =
     (case h Click cb of
        Some cb' \<Rightarrow> (cb', True, [Dispatch Click])
      | None \<Rightarrow>
          (case forceCalendarState h cb visible of (cb', acts) \<Rightarrow> (cb', False, Dispatch Click # acts)))"

definition verifyToggle :: "host \<Rightarrow> checkbox \<Rightarrow> bool \<Rightarrow> checkbox \<times> interaction list" where
  \<comment> \<open>the callback that \<open>toggleCalendarVisibility\<close> passes to \<open>setTimeout\<close>\<close>
  "verifyToggle h cb visible =
     (let currentState = checkboxState cb in
      if currentState \<noteq> visible then forceCalendarState h cb visible else (cb, []))"

section \<open>Calendar items\<close>

text \<open>
  A calendar item returned by \<open>CalendarDOM.getCalendarElements(false)\<close>: its subtree, its
  index among its parent's children, and the control that \<open>getCheckboxElement\<close> finds for
  it (\<open>None\<close>: \<open>null\<close>), with the control's live state. Each item has a control of
  its own, and what the page does on an event is confined to the control that receives
  it: the subtrees, and with them the ids and names, stay as scanned.
\<close>

record element =
  elNode :: node
  elIndex :: "nat option"
  elCheckbox :: "checkbox option"

definition elId :: "element \<Rightarrow> string" where
  "elId e = getCalendarId (elNode e) (elIndex e)"

definition elName :: "element \<Rightarrow> string" where
  "elName e = getCalendarName (elNode e) (elIndex e)"

definition isCalendarChecked :: "element \<Rightarrow> bool" where
  "isCalendarChecked e = (case elCheckbox e of None \<Rightarrow> False | Some cb \<Rightarrow> checkboxState cb)"

section \<open>\<open>CalendarGroupManager\<close>\<close>

text \<open>
  The manager's fields together with what it acts on: the calendar items of the page, the
  verification callbacks scheduled and not yet run (item index and expected state, in
  the order scheduled), and a journal of the interactions performed on each item's control.
\<close>

record world =
  currentActiveGroup :: "string option"
  originalCalendarStates :: "(string \<times> bool) list"
  isInitialized :: bool
  calendarElements :: "element list"
  timers :: "(nat \<times> bool) list"
  journal :: "(nat \<times> interaction) list"

fun forEachElement ::
  "host \<Rightarrow> (element \<Rightarrow> bool option) \<Rightarrow> nat \<Rightarrow> element list
     \<Rightarrow> element list \<times> (nat \<times> bool) list \<times> (nat \<times> interaction) list" where
  \<comment> \<open>one pass over the items; \<open>target e = Some v\<close> when the loop body calls
     \<open>toggleCalendarVisibility(checkbox, v)\<close> for item \<open>e\<close>\<close>
  "forEachElement h target i [] = ([], [], [])"
| "forEachElement h target i (e # es) =
     (case forEachElement h target (Suc i) es of
        (es', ts, js) \<Rightarrow>
          (case (elCheckbox e, target e) of
             (Some cb, Some v) \<Rightarrow>
               (case toggleCalendarVisibility h cb v of
                  (cb', scheduled, acts) \<Rightarrow>
                    (e\<lparr>elCheckbox := Some cb'\<rparr> # es',
                     (if scheduled then [(i, v)] else []) @ ts,
                     map (Pair i) acts @ js))
           | _ \<Rightarrow> (e # es', ts, js)))"

definition runLoop :: "host \<Rightarrow> (element \<Rightarrow> bool option) \<Rightarrow> world \<Rightarrow> world" where
  "runLoop h target w =
     (case forEachElement h target 0 (calendarElements w) of
        (es, ts, js) \<Rightarrow>
          w\<lparr>calendarElements := es, timers := timers w @ ts, journal := journal w @ js\<rparr>)"

definition saveCurrentCalendarStates :: "world \<Rightarrow> world" where
  "saveCurrentCalendarStates w =
     w\<lparr>originalCalendarStates :=
         foldl (\<lambda>states e. AList.update (elId e) (isCalendarChecked e) states)
           (originalCalendarStates w) (calendarElements w)\<rparr>"

definition hideTarget :: "element \<Rightarrow> bool option" where
  "hideTarget e = (if elCheckbox e \<noteq> None \<and> isCalendarChecked e then Some False else None)"

definition hideAllCalendars :: "host \<Rightarrow> world \<Rightarrow> world" where
  "hideAllCalendars h w = runLoop h hideTarget w"

definition showTarget :: "string list \<Rightarrow> element \<Rightarrow> bool option" where
  "showTarget calendarIds e =
     (if elId e \<in> set calendarIds
      then (if elCheckbox e \<noteq> None \<and> \<not> isCalendarChecked e then Some True else None)
      else None)"

datatype error = GroupNotFound | TypeError

definition showCalendarsInGroup :: "host \<Rightarrow> string list option \<Rightarrow> world \<Rightarrow> (error \<times> world) + world" where
  \<comment> \<open>\<open>calendarIds\<close> is \<open>None\<close> when \<open>group.calendars\<close> is \<open>undefined\<close>: then
     \<open>calendarIds.includes\<close> throws at the first item\<close>
  "showCalendarsInGroup h calendarIds w =
     (case calendarIds of
        None \<Rightarrow> if calendarElements w = [] then Inr w else Inl (TypeError, w)
      | Some ids \<Rightarrow> Inr (runLoop h (showTarget ids) w))"

definition restoreTarget :: "(string \<times> bool) list \<Rightarrow> element \<Rightarrow> bool option" where
  "restoreTarget states e =
     (case map_of states (elId e) of
        None \<Rightarrow> None
      | Some shouldBeVisible \<Rightarrow>
          if elCheckbox e \<noteq> None \<and> shouldBeVisible \<noteq> isCalendarChecked e
          then Some shouldBeVisible else None)"

definition showAllCalendars :: "host \<Rightarrow> world \<Rightarrow> world" where
  "showAllCalendars h w =
     (runLoop h (restoreTarget (originalCalendarStates w)) w)
       \<lparr>currentActiveGroup := None, originalCalendarStates := []\<rparr>"

text \<open>
  The persisted groups are a plain object \<open>groupId \<rightarrow> {name, calendars}\<close>; the name is not
  read here. \<open>groups[groupId]\<close> finds an own property or, failing that, a member that
  every plain object inherits from \<open>Object.prototype\<close>: such a member is truthy and has
  no \<open>calendars\<close>.
\<close>

datatype group = StoredGroup "string list" | InheritedMember

fun calendars :: "group \<Rightarrow> string list option" where
  "calendars (StoredGroup ids) = Some ids"
| "calendars InheritedMember = None"

definition objectPrototypeKeys :: "string list" where
  "objectPrototypeKeys =
     [''constructor'', ''hasOwnProperty'', ''isPrototypeOf'', ''propertyIsEnumerable'',
      ''toLocaleString'', ''toString'', ''valueOf'', ''__proto__'',
      ''__defineGetter__'', ''__defineSetter__'', ''__lookupGetter__'', ''__lookupSetter__'']"

definition lookupGroup :: "(string \<times> string list) list \<Rightarrow> string \<Rightarrow> group option" where
  "lookupGroup groups groupId =
     (case map_of groups groupId of
        Some ids \<Rightarrow> Some (StoredGroup ids)
      | None \<Rightarrow> if groupId \<in> set objectPrototypeKeys then Some InheritedMember else None)"

definition toggleGroup ::
  "host \<Rightarrow> (string \<times> string list) list \<Rightarrow> string \<Rightarrow> world \<Rightarrow> (error \<times> world) + world" where
  \<comment> \<open>\<open>Inl\<close>: the error thrown, with the world as it is at the throw\<close>
  "toggleGroup h groups groupId w =
     (case lookupGroup groups groupId of
        None \<Rightarrow> Inl (GroupNotFound, w)
      | Some grp \<Rightarrow>
          if currentActiveGroup w = Some groupId then Inr (showAllCalendars h w)
          else
            (let w1 = (if originalCalendarStates w = [] then saveCurrentCalendarStates w else w);
                 w2 = hideAllCalendars h w1
             in case showCalendarsInGroup h (calendars grp) w2 of
                  Inl err \<Rightarrow> Inl err
                | Inr w3 \<Rightarrow> Inr (w3\<lparr>currentActiveGroup := Some groupId\<rparr>)))"

record calendar_info =
  info_id :: string
  info_name :: string
  info_visible :: bool

datatype response =
    ToggleOk "string option"
  | RestoreOk
  | CalendarList "calendar_info list"
  | ErrorResponse error

definition handleToggleGroup ::
  "host \<Rightarrow> (string \<times> string list) list \<Rightarrow> string \<Rightarrow> world \<Rightarrow> response \<times> world" where
  "handleToggleGroup h groups groupId w =
     (case toggleGroup h groups groupId w of
        Inr w' \<Rightarrow> (ToggleOk (currentActiveGroup w'), w')
      | Inl (err, w') \<Rightarrow> (ErrorResponse err, w'))"


definition getAvailableCalendars :: "world \<Rightarrow> calendar_info list" where
  "getAvailableCalendars w =
     map (\<lambda>element. \<lparr>info_id = elId element, info_name = elName element,
                      info_visible = isCalendarChecked element\<rparr>)
       (calendarElements w)"

definition handleGetCalendars :: "world \<Rightarrow> response \<times> world" where
  "handleGetCalendars w =
     (let w' = (if \<not> isInitialized w then w\<lparr>isInitialized := True\<rparr> else w)
      in (CalendarList (getAvailableCalendars w'), w'))"

text \<open>
  Running the oldest pending verification callback. All callbacks have the same delay,
  so they run in the order scheduled.
\<close>

definition fireTimer :: "host \<Rightarrow> world \<Rightarrow> world" where
  "fireTimer h w =
     (case timers w of
        [] \<Rightarrow> w
      | (i, visible) # rest \<Rightarrow>
          if i < length (calendarElements w) then
            (case elCheckbox (calendarElements w ! i) of
               None \<Rightarrow> w\<lparr>timers := rest\<rparr>
             | Some cb \<Rightarrow>
                 (case verifyToggle h cb visible of
                    (cb', acts) \<Rightarrow>
                      w\<lparr>calendarElements :=
                          (calendarElements w)[i := (calendarElements w ! i)\<lparr>elCheckbox := Some cb'\<rparr>],
                        timers := rest,
                        journal := journal w @ map (Pair i) acts\<rparr>))
          else w\<lparr>timers := rest\<rparr>)"

fun fireTimers :: "host \<Rightarrow> nat \<Rightarrow> world \<Rightarrow> world" where
  "fireTimers h 0 w = w"
| "fireTimers h (Suc k) w = fireTimers h k (fireTimer h w)"

section \<open>The scanner: \<open>CalendarDOM.getCalendarElements(false)\<close>\<close>

text \<open>
  A string literal of the source. \<open>Wide\<close> is a literal with code units above 255, given by
  its UTF-16 code units: no string of this model equals or contains it.
\<close>

datatype literal = Latin string | Wide "int list"

fun stringIncludes :: "string \<Rightarrow> string \<Rightarrow> bool" where
  \<comment> \<open>\<open>text.includes(s)\<close>\<close>
  "stringIncludes [] s = (s = [])"
| "stringIncludes (c # cs) s = (take (length s) (c # cs) = s \<or> stringIncludes cs s)"

definition isWordChar :: "char \<Rightarrow> bool" where
  \<comment> \<open>the class \<open>\w\<close> of a regular expression without the unicode flag\<close>
  "isWordChar c \<longleftrightarrow> isAlnum c \<or> c = CHR ''_''"

definition wordBoundary :: "string \<Rightarrow> nat \<Rightarrow> bool" where
  \<comment> \<open>\<open>\b\<close> matches before position \<open>k\<close>\<close>
  "wordBoundary text k \<longleftrightarrow>
     (0 < k \<and> isWordChar (text ! (k - 1))) \<noteq> (k < length text \<and> isWordChar (text ! k))"

definition wordMatchAt :: "string \<Rightarrow> string \<Rightarrow> nat \<Rightarrow> bool" where
  "wordMatchAt item text i \<longleftrightarrow>
     i + length item \<le> length text \<and> take (length item) (drop i text) = item
     \<and> wordBoundary text i \<and> wordBoundary text (i + length item)"

fun isLiteral :: "string \<Rightarrow> literal \<Rightarrow> bool" where
  \<comment> \<open>\<open>text === item\<close>\<close>
  "isLiteral text (Latin s) = (text = s)"
| "isLiteral text (Wide us) = False"

fun includesLiteral :: "string \<Rightarrow> literal \<Rightarrow> bool" where
  \<comment> \<open>\<open>text.includes(item)\<close>\<close>
  "includesLiteral text (Latin s) = stringIncludes text s"
| "includesLiteral text (Wide us) = False"

fun wordMatch :: "literal \<Rightarrow> string \<Rightarrow> bool" where
  \<comment> \<open>\<open>new RegExp(`\\b${item}\\b`).test(text)\<close>, for an item without special characters\<close>
  "wordMatch (Latin s) text = list_ex (wordMatchAt s text) [0..<Suc (length text)]"
| "wordMatch (Wide us) text = False"

fun lowerLiteral :: "literal \<Rightarrow> literal" where
  \<comment> \<open>\<open>indicator.toLowerCase()\<close>; the wide literals of the source have no upper case\<close>
  "lowerLiteral (Latin s) = Latin (toLowerCase s)"
| "lowerLiteral (Wide us) = Wide us"

datatype simple =
    Tag string
  | Class string
  | HasAttr string
  | AttrIs string string
  | AttrHas string literal

text \<open>
  A selector is a comma-separated list of compound selectors: \<open>div[class*="calendar"]\<close> is
  \<open>[[Tag div, AttrHas class calendar]]\<close>.
\<close>

type_synonym selector = "simple list list"

text \<open>
  The page as the scanner reads it, through the browser: element handles of type \<open>'e\<close>,
  the queries on them, each element's subtree, sibling index and the two properties a
  control is read by. \<open>evaluate pattern\<close> is the snapshot that \<open>document.evaluate\<close>
  returns for the XPath expression of \<open>findCalendarsWithGooglePatterns\<close> with that
  pattern; the snapshot is requested unordered. The context \<open>None\<close> of a query is the
  document.
\<close>

record 'e page =
  querySelectorAll :: "'e option \<Rightarrow> selector \<Rightarrow> 'e list"
  closest :: "'e \<Rightarrow> selector \<Rightarrow> 'e option"
  matches :: "'e \<Rightarrow> selector \<Rightarrow> bool"
  parentElement :: "'e \<Rightarrow> 'e option"
  evaluate :: "literal \<Rightarrow> 'e list"
  body :: "'e option"
  documentElement :: "'e option"
  subtree :: "'e \<Rightarrow> node"
  siblingIndex :: "'e \<Rightarrow> nat option"
  checkedProperty :: "'e \<Rightarrow> bool option"
  typeProperty :: "'e \<Rightarrow> string option"

definition querySelector :: "'e page \<Rightarrow> 'e option \<Rightarrow> selector \<Rightarrow> 'e option" where
  "querySelector p scope sel =
     (case querySelectorAll p scope sel of [] \<Rightarrow> None | x # _ \<Rightarrow> Some x)"

definition inputOrRoleCheckbox :: selector where
  \<comment> \<open>\<open>input[type="checkbox"], [role="checkbox"]\<close>\<close>
  "inputOrRoleCheckbox =
     [[Tag ''input'', AttrIs ''type'' ''checkbox''], [AttrIs ''role'' ''checkbox'']]"

definition roleOrInputCheckbox :: selector where
  \<comment> \<open>\<open>[role="checkbox"], input[type="checkbox"]\<close>\<close>
  "roleOrInputCheckbox =
     [[AttrIs ''role'' ''checkbox''], [Tag ''input'', AttrIs ''type'' ''checkbox'']]"

definition getCheckboxElement :: "'e page \<Rightarrow> 'e \<Rightarrow> 'e option" where
  "getCheckboxElement p calendarElement =
     (case querySelector p (Some calendarElement) [[AttrIs ''role'' ''checkbox'']] of
        Some checkbox \<Rightarrow> Some checkbox
      | None \<Rightarrow>
     (case querySelector p (Some calendarElement) [[Tag ''input'', AttrIs ''type'' ''checkbox'']] of
        Some checkbox \<Rightarrow> Some checkbox
      | None \<Rightarrow>
     if matches p calendarElement roleOrInputCheckbox then Some calendarElement
     else
       (case parentElement p calendarElement of
          None \<Rightarrow> None
        | Some parent \<Rightarrow> querySelector p (Some parent) roleOrInputCheckbox)))"

definition controlOf :: "'e page \<Rightarrow> 'e \<Rightarrow> checkbox" where
  "controlOf p checkbox =
     \<lparr>ariaChecked = getAttribute (subtree p checkbox) ''aria-checked'',
      checked = checkedProperty p checkbox,
      ariaPressed = getAttribute (subtree p checkbox) ''aria-pressed'',
      inputType = typeProperty p checkbox\<rparr>"

definition itemOf :: "'e page \<Rightarrow> 'e \<Rightarrow> element" where
  \<comment> \<open>what the manager reads of a scanned element\<close>
  "itemOf p x =
     \<lparr>elNode = subtree p x, elIndex = siblingIndex p x,
      elCheckbox = map_option (controlOf p) (getCheckboxElement p x)\<rparr>"

definition containerSelectors :: "selector list" where
  "containerSelectors =
     [[[Tag ''li'']],
      [[Tag ''div'', AttrIs ''role'' ''listitem'']],
      [[Tag ''label'']],
      [[HasAttr ''data-calendarid'']],
      [[HasAttr ''data-eventid'']],
      [[HasAttr ''jsname'']],
      [[Tag ''div'', AttrHas ''class'' (Latin ''calendar'')]],
      [[Tag ''div'', AttrHas ''class'' (Latin ''Calendar'')]]]"

definition findCalendarContainer :: "'e page \<Rightarrow> 'e \<Rightarrow> 'e option" where
  "findCalendarContainer p checkbox =
     (let parent1 = parentElement p checkbox;
          parent2 = Option.bind parent1 (parentElement p);
          parent3 = Option.bind parent2 (parentElement p);
          containers =
            List.map_filter (\<lambda>c. c)
              (map (closest p checkbox) containerSelectors @ [parent1, parent2, parent3])
      in case find (\<lambda>container.
                  Some container \<noteq> body p \<and> Some container \<noteq> documentElement p
                  \<and> (let len = length (trim (textContent (subtree p container)))
                     in len > 0 \<and> len < 200))
                containers of
           Some container \<Rightarrow> Some container
         | None \<Rightarrow> parentElement p checkbox)"

definition systemItems :: "literal list" where
  "systemItems =
     [Latin ''tasks'', Latin ''reminders'',
      Wide [0x30BF, 0x30B9, 0x30AF], Wide [0x30EA, 0x30DE, 0x30A4, 0x30F3, 0x30C0, 0x30FC],
      Latin ''birthdays'', Wide [0x8A95, 0x751F, 0x65E5],
      Latin ''holidays'', Wide [0x795D, 0x65E5],
      Wide [0x30D5, 0x30A9, 0x30ED, 0x30FC, 0x30A2, 0x30C3, 0x30D7], Latin ''follow-up'']"

definition calendarIndicators :: "literal list" where
  "calendarIndicators =
     [Latin ''@gmail.com'', Latin ''@googlemail.com'', Latin ''@group.calendar.google.com'',
      Latin ''@outlook.com'', Latin ''@hotmail.com'', Latin ''@yahoo.com'',
      Latin ''calendar'', Wide [0x30AB, 0x30EC, 0x30F3, 0x30C0, 0x30FC],
      Latin ''schedule'', Wide [0x30B9, 0x30B1, 0x30B8, 0x30E5, 0x30FC, 0x30EB],
      Latin ''event'', Wide [0x30A4, 0x30D9, 0x30F3, 0x30C8],
      Latin ''meeting'', Wide [0x30DF, 0x30FC, 0x30C6, 0x30A3, 0x30F3, 0x30B0],
      Latin ''work'', Wide [0x4ED5, 0x4E8B], Latin ''personal'', Wide [0x500B, 0x4EBA],
      Latin ''family'', Wide [0x5BB6, 0x65CF],
      Latin ''holiday'', Wide [0x795D, 0x65E5], Latin ''vacation'', Wide [0x4F11, 0x6687],
      Latin ''project'', Wide [0x30D7, 0x30ED, 0x30B8, 0x30A7, 0x30AF, 0x30C8],
      Latin ''team'', Wide [0x30C1, 0x30FC, 0x30E0]]"

definition calendarSection :: selector where
  \<comment> \<open>\<open>[aria-label*="calendar"], [aria-label*="..."], [data-drawer*="calendar"]\<close>\<close>
  "calendarSection =
     [[AttrHas ''aria-label'' (Latin ''calendar'')],
      [AttrHas ''aria-label'' (Wide [0x30AB, 0x30EC, 0x30F3, 0x30C0, 0x30FC])],
      [AttrHas ''data-drawer'' (Latin ''calendar'')]]"

definition calendarIdOrEventId :: selector where
  \<comment> \<open>\<open>[data-calendarid], [data-eventid]\<close>\<close>
  "calendarIdOrEventId = [[HasAttr ''data-calendarid''], [HasAttr ''data-eventid'']]"

definition orEmpty :: "string option \<Rightarrow> string" where
  \<comment> \<open>\<open>value || ''\<close>\<close>
  "orEmpty v = (case v of None \<Rightarrow> [] | Some s \<Rightarrow> s)"

definition isCalendarItem :: "'e page \<Rightarrow> 'e \<Rightarrow> bool" where
  "isCalendarItem p element =
     (let hasCheckbox = (matches p element roleOrInputCheckbox
                         \<or> querySelector p (Some element) roleOrInputCheckbox \<noteq> None);
          textContent = textContent (subtree p element);
          ariaLabel = orEmpty (getAttribute (subtree p element) ''aria-label'');
          title = orEmpty (getAttribute (subtree p element) ''title'');
          allText = toLowerCase (textContent @ '' '' @ ariaLabel @ '' '' @ title);
          text = trim (toLowerCase textContent);
          label = trim (toLowerCase ariaLabel);
          titleText = trim (toLowerCase title);
          isSystemItem =
            list_ex (\<lambda>item.
                isLiteral text item \<or> isLiteral label item \<or> isLiteral titleText item
                \<or> wordMatch item text \<or> wordMatch item label \<or> wordMatch item titleText)
              systemItems;
          hasCalendarIndicator =
            list_ex (\<lambda>indicator. includesLiteral allText (lowerLiteral indicator)) calendarIndicators;
          isInCalendarSection = (closest p element calendarSection \<noteq> None);
          hasCalendarAttributes =
            (getAttribute (subtree p element) ''data-calendarid'' \<noteq> None
             \<or> getAttribute (subtree p element) ''data-eventid'' \<noteq> None
             \<or> closest p element calendarIdOrEventId \<noteq> None
             \<or> querySelector p (Some element) calendarIdOrEventId \<noteq> None)
      in if \<not> hasCheckbox then False
         else if trim textContent = [] \<and> ariaLabel = [] \<and> title = [] then False
         else if isSystemItem then False
         else hasCalendarIndicator \<or> isInCalendarSection \<or> hasCalendarAttributes
              \<or> (length (trim textContent) > 0 \<and> length (trim textContent) < 150
                  \<and> \<not> stringIncludes textContent [CHR 0x0A, CHR 0x0A]))"

definition addAll :: "'e list \<Rightarrow> 'e list \<Rightarrow> 'e list" where
  \<comment> \<open>\<open>elements.add(x)\<close> for each \<open>x\<close>, in order: a \<open>Set\<close> keeps the first insertion\<close>
  "addAll elements xs = foldl (\<lambda>s x. if x \<in> set s then s else s @ [x]) elements xs"

definition acceptedContainers :: "'e page \<Rightarrow> 'e list \<Rightarrow> 'e list" where
  \<comment> \<open>the containers of the given checkboxes that are calendar items\<close>
  "acceptedContainers p checkboxes =
     List.map_filter
       (\<lambda>checkbox.
          case findCalendarContainer p checkbox of
            None \<Rightarrow> None
          | Some container \<Rightarrow> if isCalendarItem p container then Some container else None)
       checkboxes"

definition sectionSelectors :: "selector list" where
  "sectionSelectors =
     [[[AttrIs ''data-drawer'' ''my-calendars'']],
      [[AttrHas ''aria-label'' (Wide [0x30DE, 0x30A4, 0x30AB, 0x30EC, 0x30F3, 0x30C0, 0x30FC])]],
      [[AttrHas ''aria-label'' (Latin ''My calendars'')]],
      [[AttrIs ''data-drawer'' ''other-calendars'']],
      [[AttrHas ''aria-label'' (Wide [0x4ED6, 0x306E, 0x30AB, 0x30EC, 0x30F3, 0x30C0, 0x30FC])]],
      [[AttrHas ''aria-label'' (Latin ''Other calendars'')]],
      [[AttrIs ''role'' ''group'', AttrHas ''aria-label'' (Latin ''calendar'')]],
      [[AttrIs ''role'' ''group'', AttrHas ''aria-label'' (Wide [0x30AB, 0x30EC, 0x30F3, 0x30C0, 0x30FC])]]]"

definition findCalendarsInSections :: "'e page \<Rightarrow> 'e list \<Rightarrow> 'e list" where
  "findCalendarsInSections p elements =
     foldl (\<lambda>elements sel.
         case querySelector p None sel of
           None \<Rightarrow> elements
         | Some section \<Rightarrow>
             addAll elements
               (acceptedContainers p (querySelectorAll p (Some section) inputOrRoleCheckbox)))
       elements sectionSelectors"

definition findCalendarsFromCheckboxes :: "'e page \<Rightarrow> 'e list \<Rightarrow> 'e list" where
  "findCalendarsFromCheckboxes p elements =
     addAll elements (acceptedContainers p (querySelectorAll p None inputOrRoleCheckbox))"

definition sidebarSelectors :: "selector list" where
  "sidebarSelectors =
     [[[Tag ''aside'']],
      [[AttrIs ''role'' ''navigation'']],
      [[AttrIs ''role'' ''complementary'']],
      [[Class ''gb_pc'']],
      [[AttrHas ''data-testid'' (Latin ''sidebar'')]],
      [[AttrHas ''data-testid'' (Latin ''calendar'')]],
      [[AttrHas ''class'' (Latin ''sidebar'')]],
      [[AttrHas ''class'' (Latin ''nav'')]]]"

definition findCalendarsInSidebar :: "'e page \<Rightarrow> 'e list \<Rightarrow> 'e list" where
  "findCalendarsInSidebar p elements =
     foldl (\<lambda>elements sel.
         case querySelector p None sel of
           None \<Rightarrow> elements
         | Some sidebar \<Rightarrow>
             addAll elements
               (acceptedContainers p (querySelectorAll p (Some sidebar) inputOrRoleCheckbox)))
       elements sidebarSelectors"

definition googlePatterns :: "selector list" where
  "googlePatterns =
     [[[AttrHas ''class'' (Latin ''calendar'')]],
      [[AttrHas ''class'' (Latin ''Calendar'')]],
      [[HasAttr ''jsname'']],
      [[HasAttr ''data-eventid'']],
      [[HasAttr ''data-calendarid'']],
      [[AttrHas ''id'' (Latin ''calendar'')]],
      [[AttrHas ''id'' (Latin ''Calendar'')]]]"

definition textPatterns :: "literal list" where
  "textPatterns =
     [Wide [0x30DE, 0x30A4, 0x30AB, 0x30EC, 0x30F3, 0x30C0, 0x30FC],
      Latin ''My calendars'', Latin ''my calendars'',
      Wide [0x4ED6, 0x306E, 0x30AB, 0x30EC, 0x30F3, 0x30C0, 0x30FC],
      Latin ''Other calendars'', Latin ''other calendars'',
      Wide [0x30AB, 0x30EC, 0x30F3, 0x30C0, 0x30FC], Latin ''Calendar'', Latin ''calendar'']"

definition patternContainers :: "'e page \<Rightarrow> 'e \<Rightarrow> 'e list" where
  \<comment> \<open>first loop of \<open>findCalendarsWithGooglePatterns\<close>: the container of the first
     checkbox inside an element that matches a pattern\<close>
  "patternContainers p element =
     (case querySelector p (Some element) inputOrRoleCheckbox of
        None \<Rightarrow> []
      | Some checkbox \<Rightarrow> acceptedContainers p [checkbox])"

definition nearbyContainers :: "'e page \<Rightarrow> 'e \<Rightarrow> 'e list" where
  \<comment> \<open>second loop: the containers of the checkboxes under the parent of an element
     that the XPath expression selects\<close>
  "nearbyContainers p element =
     (case parentElement p element of
        None \<Rightarrow> []
      | Some parent \<Rightarrow> acceptedContainers p (querySelectorAll p (Some parent) inputOrRoleCheckbox))"

definition findCalendarsWithGooglePatterns :: "'e page \<Rightarrow> 'e list \<Rightarrow> 'e list" where
  "findCalendarsWithGooglePatterns p elements =
     (let elements1 =
            foldl (\<lambda>elements pattern.
                foldl (\<lambda>elements element. addAll elements (patternContainers p element))
                  elements (querySelectorAll p None pattern))
              elements googlePatterns
      in foldl (\<lambda>elements pattern.
             foldl (\<lambda>elements element. addAll elements (nearbyContainers p element))
               elements (evaluate p pattern))
           elements1 textPatterns)"

definition getCalendarElements :: "'e page \<Rightarrow> 'e list" where
  \<comment> \<open>without forced expansion; \<open>debugPageStructure\<close> only reads and logs\<close>
  "getCalendarElements p =
     findCalendarsWithGooglePatterns p
       (findCalendarsInSidebar p
          (findCalendarsFromCheckboxes p
             (findCalendarsInSections p [])))"

definition getCalendarItems :: "'e page \<Rightarrow> element list" where
  "getCalendarItems p = map (itemOf p) (getCalendarElements p)"

definition scanInto :: "'e page \<Rightarrow> world \<Rightarrow> world" where
  \<comment> \<open>the world with the items that a scan of the page finds\<close>
  "scanInto p w = w\<lparr>calendarElements := getCalendarItems p\<rparr>"

section \<open>Notions used in the statements\<close>

definition converges :: "host \<Rightarrow> bool" where
  \<comment> \<open>every primary activation registers: \<open>checkbox.click()\<close> returns and flips what
     \<open>isCalendarChecked\<close> reads\<close>
  "converges h \<longleftrightarrow>
     (\<forall>cb. \<exists>cb'. h Click cb = Some cb' \<and> checkboxState cb' = (\<not> checkboxState cb))"

definition convergesAtOnce :: "host \<Rightarrow> bool" where
  \<comment> \<open>every call of \<open>toggleCalendarVisibility\<close> leaves its control at the target when it
     returns: the click registers, or it throws and the ladder run at once succeeds\<close>
  "convergesAtOnce h \<longleftrightarrow>
     (\<forall>cb visible. checkboxState cb \<noteq> visible \<longrightarrow>
        checkboxState (fst (toggleCalendarVisibility h cb visible)) = visible)"

definition setOutcome :: "host \<Rightarrow> checkbox \<Rightarrow> bool \<Rightarrow> checkbox" where
  \<comment> \<open>the control once one \<open>toggleCalendarVisibility\<close> is through: after the click and,
     where it was scheduled, the delayed verification with its ladder\<close>
  "setOutcome h cb visible =
     (case toggleCalendarVisibility h cb visible of
        (cb', scheduled, acts) \<Rightarrow> if scheduled then fst (verifyToggle h cb' visible) else cb')"

definition setConverges :: "host \<Rightarrow> bool" where
  \<comment> \<open>every toggle converges, be it only through the delayed ladder\<close>
  "setConverges h \<longleftrightarrow>
     (\<forall>cb visible. checkboxState cb \<noteq> visible \<longrightarrow> checkboxState (setOutcome h cb visible) = visible)"

definition settle :: "host \<Rightarrow> world \<Rightarrow> world" where
  \<comment> \<open>all pending verification callbacks have run\<close>
  "settle h w = fireTimers h (length (timers w)) w"

definition applyTimer :: "host \<Rightarrow> nat \<times> bool \<Rightarrow> element list \<Rightarrow> element list" where
  \<comment> \<open>what one verification callback does to the items\<close>
  "applyTimer h t es =
     (case t of (i, visible) \<Rightarrow>
        if i < length es then
          (case elCheckbox (es ! i) of
             None \<Rightarrow> es
           | Some cb \<Rightarrow> es[i := (es ! i)\<lparr>elCheckbox := Some (fst (verifyToggle h cb visible))\<rparr>])
        else es)"

definition settledStep :: "host \<Rightarrow> (element \<Rightarrow> bool option) \<Rightarrow> element \<Rightarrow> element" where
  \<comment> \<open>what one iteration of a loop and its verification callback leave of the item\<close>
  "settledStep h target e =
     (case (elCheckbox e, target e) of
        (Some cb, Some v) \<Rightarrow> e\<lparr>elCheckbox := Some (setOutcome h cb v)\<rparr>
      | _ \<Rightarrow> e)"

definition stepElement :: "host \<Rightarrow> (element \<Rightarrow> bool option) \<Rightarrow> element \<Rightarrow> element" where
  \<comment> \<open>what one iteration of a loop leaves of its item\<close>
  "stepElement h target e =
     (case (elCheckbox e, target e) of
        (Some cb, Some v) \<Rightarrow> e\<lparr>elCheckbox := Some (fst (toggleCalendarVisibility h cb v))\<rparr>
      | _ \<Rightarrow> e)"

definition worldOf :: "(error \<times> world) + world \<Rightarrow> world" where
  \<comment> \<open>the world a call leaves, whether it returned or threw\<close>
  "worldOf r = (case r of Inl (err, w) \<Rightarrow> w | Inr w \<Rightarrow> w)"

definition visibilities :: "world \<Rightarrow> bool list" where
  \<comment> \<open>what \<open>isCalendarChecked\<close> reads for each item, in scan order\<close>
  "visibilities w = map isCalendarChecked (calendarElements w)"

definition returns :: "(error \<times> world) + world \<Rightarrow> bool" where
  "returns r = (case r of Inl _ \<Rightarrow> False | Inr _ \<Rightarrow> True)"

section \<open>Example pages\<close>

definition inputHost :: host where
  \<comment> \<open>a page that reacts to a click, dispatched or not, by flipping the control and
     keeping its indicators consistent; on a native \<open>input type="checkbox"\<close> without
     accessibility attributes this flips \<open>checked\<close>; nothing throws\<close>
  "inputHost ev cb =
     (if ev = Click \<or> ev = MouseClick then
        (if checkboxState cb
         then Some (cb\<lparr>ariaChecked := map_option (\<lambda>_. ''false'') (ariaChecked cb),
                        checked := Some False,
                        ariaPressed := map_option (\<lambda>_. ''false'') (ariaPressed cb)\<rparr>)
         else Some (cb\<lparr>checked := Some True\<rparr>))
      else Some cb)"

definition ladderHost :: host where
  \<comment> \<open>a page on which \<open>checkbox.click()\<close> has no effect, while a dispatched click event
     flips the control as on \<open>inputHost\<close>: a toggle converges only through the ladder
     of the delayed verification\<close>
  "ladderHost ev cb = (if ev = MouseClick then inputHost MouseClick cb else Some cb)"

definition inputBox :: "bool \<Rightarrow> checkbox" where
  "inputBox b = \<lparr>ariaChecked = None, checked = Some b, ariaPressed = None, inputType = Some ''checkbox''\<rparr>"

definition labelledItem :: node where
  \<comment> \<open>an item with an accessible label of its own and a tooltip on a descendant\<close>
  "labelledItem =
     Element HTML ''li'' [(''aria-label'', ''Work'')]
       [Element HTML ''input'' [(''type'', ''checkbox'')] [],
        Element HTML ''span'' [(''title'', ''Tooltip'')] [Text ''Work'']]"

definition calendarItem :: "string \<Rightarrow> string \<Rightarrow> bool \<Rightarrow> element" where
  \<comment> \<open>a list item with a native identifier, a native checkbox and a text\<close>
  "calendarItem cid label b =
     \<lparr>elNode = Element HTML ''li'' [(''data-calendarid'', cid)]
                 [Element HTML ''input'' [(''type'', ''checkbox'')] [], Element HTML ''span'' [] [Text label]],
      elIndex = Some 0,
      elCheckbox = Some (inputBox b)\<rparr>"

definition namedItem :: "string \<Rightarrow> bool \<Rightarrow> element" where
  \<comment> \<open>a label without any identifier attribute, the first child of its parent\<close>
  "namedItem label b =
     \<lparr>elNode = Element HTML ''label'' [] [Element HTML ''input'' [(''type'', ''checkbox'')] [], Text label],
      elIndex = Some 0,
      elCheckbox = Some (inputBox b)\<rparr>"

definition idleWorld :: "element list \<Rightarrow> world" where
  "idleWorld es =
     \<lparr>currentActiveGroup = None, originalCalendarStates = [], isInitialized = True,
      calendarElements = es, timers = [], journal = []\<rparr>"

definition abcWorld :: world where
  \<comment> \<open>the spec's example: A visible, B hidden, C visible\<close>
  "abcWorld = idleWorld [calendarItem ''A'' ''Alpha'' True, calendarItem ''B'' ''Beta'' False,
                         calendarItem ''C'' ''Gamma'' True]"

definition abcGroups :: "(string \<times> string list) list" where
  "abcGroups = [(''g1'', [''A'', ''B'']), (''g2'', [''C''])]"

definition twinWorld :: world where
  \<comment> \<open>two calendars of the same name, each the first child of its own wrapper: the first
     visible, the second hidden\<close>
  "twinWorld = idleWorld [namedItem ''Work'' True, namedItem ''Work'' False]"

definition staleWorld :: world where
  \<comment> \<open>the example page after a \<open>toggleGroup\<close> request for the id \<open>constructor\<close>: no group
     is active, the snapshot of that call is still held\<close>
  "staleWorld = snd (handleToggleGroup inputHost abcGroups ''constructor'' abcWorld)"

definition g1World :: world where
  \<comment> \<open>the example page after group \<open>g1\<close> has been activated\<close>
  "g1World = worldOf (toggleGroup inputHost abcGroups ''g1'' abcWorld)"

definition lateWorld :: world where
  \<comment> \<open>group \<open>g1\<close> was activated while the page showed no calendar yet; the calendars of
     the example page have appeared since\<close>
  "lateWorld =
     (worldOf (toggleGroup inputHost abcGroups ''g1'' (idleWorld [])))
       \<lparr>calendarElements := calendarElements abcWorld\<rparr>"


text \<open>
  An example page: \<open>html(0) > body(1) > aside(2)\<close>, and in the aside
  \<open>div(3) "Your calendar list"\<close>, \<open>li(4) > input(5), span "Work"\<close>,
  \<open>div(6) "A calendar of the team"\<close>, \<open>li(7) > input(8), span "Team"\<close>; the first
  checkbox is checked. The XPath expression selects the two divs for the pattern
  \<open>calendar\<close> and nothing for the other patterns.
\<close>

definition listSubtree :: "nat \<Rightarrow> node" where
  "listSubtree x =
     (let box = Element HTML ''input'' [(''type'', ''checkbox'')] [];
          work = Element HTML ''li'' [] [box, Element HTML ''span'' [] [Text ''Work'']];
          team = Element HTML ''li'' [] [box, Element HTML ''span'' [] [Text ''Team'']];
          list = Element HTML ''div'' [] [Text ''Your calendar list''];
          shared = Element HTML ''div'' [] [Text ''A calendar of the team''];
          aside = Element HTML ''aside'' [] [list, work, shared, team]
      in if x = 0 then Element HTML ''html'' [] [Element HTML ''body'' [] [aside]]
         else if x = 1 then Element HTML ''body'' [] [aside]
         else if x = 2 then aside
         else if x = 3 then list
         else if x = 4 then work
         else if x = 6 then shared
         else if x = 7 then team
         else box)"

definition listCheckboxes :: "selector list" where
  \<comment> \<open>the selectors of this development that select the two inputs\<close>
  "listCheckboxes =
     [inputOrRoleCheckbox, roleOrInputCheckbox, [[Tag ''input'', AttrIs ''type'' ''checkbox'']]]"

definition listQuery :: "nat option \<Rightarrow> selector \<Rightarrow> nat list" where
  "listQuery scope sel =
     (if sel \<in> set listCheckboxes then
        (if scope \<in> set [None, Some 0, Some 1, Some 2] then [5, 8]
         else if scope = Some 4 then [5]
         else if scope = Some 7 then [8]
         else [])
      else if sel = [[Tag ''aside'']] \<and> scope \<in> set [None, Some 0, Some 1] then [2]
      else [])"

definition listClosest :: "nat \<Rightarrow> selector \<Rightarrow> nat option" where
  "listClosest x sel =
     (if sel = [[Tag ''li'']]
      then (if x = 4 \<or> x = 5 then Some 4 else if x = 7 \<or> x = 8 then Some 7 else None)
      else None)"

definition listParent :: "nat \<Rightarrow> nat option" where
  "listParent x =
     (if x = 0 then None else if x = 1 then Some 0 else if x = 2 then Some 1
      else if x = 5 then Some 4 else if x = 8 then Some 7 else Some 2)"

definition listEvaluate :: "literal \<Rightarrow> nat list" where
  "listEvaluate pattern = (if pattern = Latin ''calendar'' then [3, 6] else [])"

definition listPage :: "nat page" where
  "listPage =
     \<lparr>querySelectorAll = listQuery,
      closest = listClosest,
      matches = (\<lambda>x sel. (x = 5 \<or> x = 8) \<and> sel \<in> set listCheckboxes),
      parentElement = listParent,
      evaluate = listEvaluate,
      body = Some 1,
      documentElement = Some 0,
      subtree = listSubtree,
      siblingIndex = (\<lambda>x.
        if x = 4 then Some 1 else if x = 6 then Some 2 else if x = 7 then Some 3 else Some 0),
      checkedProperty = (\<lambda>x. if x = 5 then Some True else if x = 8 then Some False else None),
      typeProperty = (\<lambda>x. if x = 5 \<or> x = 8 then Some ''checkbox'' else None)\<rparr>"

section \<open>Properties of the visibility controller\<close>

lemma trim_Nil [simp]: "trim [] = []"
  by (simp add: trim_def)

text \<open>
  Claim C6, as stated, at a control whose \<open>checked\<close> property is \<open>false\<close> and whose
  \<open>aria-checked\<close> attribute is \<open>"true"\<close>: the claim reports the item as not visible,
  \<open>isCalendarChecked\<close> reports it as visible.
\<close>

theorem C6_checked_false_aria_true_counterexample:
  "isCalendarChecked
     \<lparr>elNode = labelledItem, elIndex = Some 0,
      elCheckbox = Some \<lparr>ariaChecked = Some ''true'', checked = Some False,
                          ariaPressed = None, inputType = Some ''checkbox''\<rparr>\<rparr>"
  by (simp add: isCalendarChecked_def checkboxState_def)

text \<open>
  Claim C6, amended: \<open>isCalendarChecked\<close> reads the three indicators without any priority
  among them. An item is reported visible exactly when it has a control and at least
  one of \<open>aria-checked = "true"\<close>, \<open>checked === true\<close>, \<open>aria-pressed = "true"\<close> holds;
  a present but negative indicator never overrides a positive one.
\<close>

theorem C6_isCalendarChecked_any_indicator:
  "isCalendarChecked e \<longleftrightarrow>
     (\<exists>cb. elCheckbox e = Some cb \<and>
        (ariaChecked cb = Some ''true'' \<or> checked cb = Some True \<or> ariaPressed cb = Some ''true''))"
  by (cases "elCheckbox e") (simp_all add: isCalendarChecked_def checkboxState_def)

lemma dispatchEvents_total:
  assumes "\<forall>ev c. h ev c \<noteq> None"
  shows "snd (dispatchEvents h evs cb) = (map Dispatch evs, True)"
  using assms
proof (induction evs arbitrary: cb)
  case Nil
  then show ?case by simp
next
  case (Cons ev evs)
  from Cons.prems have "h ev cb \<noteq> None"
    by blast
  then obtain cb' where step: "h ev cb = Some cb'"
    by auto
  obtain cb'' acts ok where r: "dispatchEvents h evs cb' = (cb'', acts, ok)"
    by (cases "dispatchEvents h evs cb'") auto
  with Cons.IH [OF Cons.prems, of cb'] show ?case
    by (simp add: step)
qed

text \<open>
  Claim C7, as stated, at a native checkbox that reads \<open>true\<close> when the verification
  expects \<open>false\<close>: the synthetic pointer events alone bring the control to the target,
  and \<open>forceCalendarState\<close> still dispatches the key event and mutates the control.
\<close>

theorem C7_ladder_does_not_stop_counterexample:
  "checkboxState (fst (dispatchEvents inputHost [MouseDown, MouseUp, MouseClick] (inputBox True))) = False
   \<and> snd (verifyToggle inputHost (inputBox True) False) =
       [Dispatch MouseDown, Dispatch MouseUp, Dispatch MouseClick, Dispatch KeyDownSpace, DirectSet False]"
  by (simp add: verifyToggle_def forceCalendarState_def inputHost_def inputBox_def
      checkboxState_def directSet_def)

text \<open>
  Claim C7, amended: the delayed verification does nothing when the control already reads
  the target. Otherwise it runs the whole ladder in the fixed order pointer events
  (mouse down, mouse up, click), key event, direct mutation, without reading the control
  between the steps and without stopping at a step that reaches the target: as long as
  no dispatch throws, all five interactions are performed and the control ends as the
  direct mutation leaves it.
\<close>

theorem C7_ladder_runs_all_steps:
  "(checkboxState cb = visible \<longrightarrow> verifyToggle h cb visible = (cb, []))
   \<and> (checkboxState cb \<noteq> visible \<and> (\<forall>ev c. h ev c \<noteq> None) \<longrightarrow>
        snd (verifyToggle h cb visible) =
          [Dispatch MouseDown, Dispatch MouseUp, Dispatch MouseClick, Dispatch KeyDownSpace,
           DirectSet visible]
        \<and> fst (verifyToggle h cb visible) =
            directSet (fst (dispatchEvents h [MouseDown, MouseUp, MouseClick, KeyDownSpace] cb)) visible)"
proof -
  have same: "verifyToggle h cb visible = (cb, [])" if "checkboxState cb = visible"
    using that by (simp add: verifyToggle_def)
  have ladder: "snd (verifyToggle h cb visible) =
          [Dispatch MouseDown, Dispatch MouseUp, Dispatch MouseClick, Dispatch KeyDownSpace,
           DirectSet visible]
        \<and> fst (verifyToggle h cb visible) =
            directSet (fst (dispatchEvents h [MouseDown, MouseUp, MouseClick, KeyDownSpace] cb)) visible"
    if a: "checkboxState cb \<noteq> visible \<and> (\<forall>ev c. h ev c \<noteq> None)"
  proof -
    from a have d: "snd (dispatchEvents h [MouseDown, MouseUp, MouseClick, KeyDownSpace] cb) =
        (map Dispatch [MouseDown, MouseUp, MouseClick, KeyDownSpace], True)"
      using dispatchEvents_total by blast
    obtain cb' acts ok
      where r: "dispatchEvents h [MouseDown, MouseUp, MouseClick, KeyDownSpace] cb = (cb', acts, ok)"
      by (cases "dispatchEvents h [MouseDown, MouseUp, MouseClick, KeyDownSpace] cb") auto
    with d have "acts = map Dispatch [MouseDown, MouseUp, MouseClick, KeyDownSpace]" and "ok"
      by simp_all
    with a r show ?thesis
      by (simp add: verifyToggle_def forceCalendarState_def)
  qed
  from same ladder show ?thesis
    by blast
qed

theorem C7_ladder_runs_all_steps_witness:
  "verifyToggle inputHost (inputBox False) False = (inputBox False, [])
   \<and> checkboxState (inputBox True) \<noteq> False \<and> (\<forall>ev c. inputHost ev c \<noteq> None)
   \<and> snd (verifyToggle inputHost (inputBox True) False) =
       [Dispatch MouseDown, Dispatch MouseUp, Dispatch MouseClick, Dispatch KeyDownSpace, DirectSet False]
   \<and> fst (verifyToggle inputHost (inputBox True) False) = inputBox False"
proof -
  have h1: "checkboxState (inputBox False) = False"
    by (simp add: checkboxState_def inputBox_def)
  have h2: "checkboxState (inputBox True) \<noteq> False \<and> (\<forall>ev c. inputHost ev c \<noteq> None)"
    by (simp add: checkboxState_def inputBox_def inputHost_def)
  have d: "directSet (fst (dispatchEvents inputHost [MouseDown, MouseUp, MouseClick, KeyDownSpace] (inputBox True))) False
      = inputBox False"
    by (simp add: inputHost_def inputBox_def directSet_def)
  from C7_ladder_runs_all_steps [of "inputBox False" False inputHost] h1
    C7_ladder_runs_all_steps [of "inputBox True" False inputHost] h2 d
  show ?thesis by simp
qed

section \<open>Properties of the names\<close>




text \<open>
  A title attribute on an SVG element is not a name: \<open>querySelector('[title]')\<close> finds
  the element, its \<open>title\<close> property is undefined, and the name comes from a later
  method.
\<close>

lemma svg_title_is_skipped:
  "getCalendarName
     (Element HTML ''li'' []
        [Element SVG ''svg'' [(''title'', ''Tip'')] [], Element HTML ''span'' [] [Text ''Work'']])
     (Some 0) = ''Work''"
  by (simp add: getCalendarName_def nameFromTitle_def nameFromChildLabel_def nameFromOwnLabel_def
      nameFromTextElements_def querySelectorAttr_def trim_def isSpace_def)

section \<open>The loops of the group manager\<close>

lemma forEachElement_elements:
  "fst (forEachElement h target i es) = map (stepElement h target) es"
proof (induction es arbitrary: i)
  case Nil
  then show ?case by simp
next
  case (Cons e es)
  obtain es' ts js where r: "forEachElement h target (Suc i) es = (es', ts, js)"
    by (cases "forEachElement h target (Suc i) es") auto
  with Cons.IH [of "Suc i"] have es': "es' = map (stepElement h target) es"
    by simp
  show ?case
    by (simp add: r es' stepElement_def split: option.splits prod.splits)
qed

lemma runLoop_elements:
  "calendarElements (runLoop h target w) = map (stepElement h target) (calendarElements w)"
proof -
  obtain es ts js where r: "forEachElement h target 0 (calendarElements w) = (es, ts, js)"
    by (cases "forEachElement h target 0 (calendarElements w)") auto
  with forEachElement_elements [of h target 0 "calendarElements w"] show ?thesis
    by (simp add: runLoop_def)
qed

lemma runLoop_fields [simp]:
  "currentActiveGroup (runLoop h target w) = currentActiveGroup w"
  "originalCalendarStates (runLoop h target w) = originalCalendarStates w"
  "isInitialized (runLoop h target w) = isInitialized w"
  by (simp_all add: runLoop_def split: prod.splits)


lemma stepElement_static [simp]:
  "elNode (stepElement h target e) = elNode e"
  "elIndex (stepElement h target e) = elIndex e"
  "elId (stepElement h target e) = elId e"
  "(elCheckbox (stepElement h target e) = None) = (elCheckbox e = None)"
  by (simp_all add: stepElement_def elId_def split: option.splits)

lemma toggle_converges:
  assumes "converges h"
  shows "checkboxState (fst (toggleCalendarVisibility h cb v)) = (\<not> checkboxState cb)"
proof -
  from assms obtain cb' where "h Click cb = Some cb'" "checkboxState cb' = (\<not> checkboxState cb)"
    unfolding converges_def by blast
  then show ?thesis
    by (simp add: toggleCalendarVisibility_def)
qed

lemma toggle_atOnce:
  assumes "convergesAtOnce h" "checkboxState cb \<noteq> v"
  shows "checkboxState (fst (toggleCalendarVisibility h cb v)) = v"
  using assms unfolding convergesAtOnce_def by blast

lemma converges_atOnce:
  assumes "converges h"
  shows "convergesAtOnce h"
  unfolding convergesAtOnce_def using toggle_converges [OF assms] by simp

lemma atOnce_setConverges:
  assumes "convergesAtOnce h"
  shows "setConverges h"
  unfolding setConverges_def
proof (intro allI impI)
  fix cb visible
  assume d: "checkboxState cb \<noteq> visible"
  obtain cb' scheduled acts where t: "toggleCalendarVisibility h cb visible = (cb', scheduled, acts)"
    by (cases "toggleCalendarVisibility h cb visible") auto
  with toggle_atOnce [OF assms d] have "checkboxState cb' = visible"
    by simp
  with t show "checkboxState (setOutcome h cb visible) = visible"
    by (simp add: setOutcome_def verifyToggle_def)
qed



lemma restore_reads_snapshot:
  assumes "convergesAtOnce h" "map_of states (elId e) = Some v" "elCheckbox e \<noteq> None"
  shows "isCalendarChecked (stepElement h (restoreTarget states) e) = v"
proof -
  from assms(3) obtain cb where cb: "elCheckbox e = Some cb"
    by auto
  show ?thesis
  proof (cases "checkboxState cb = v")
    case True
    with cb assms(2) show ?thesis
      by (simp add: stepElement_def restoreTarget_def isCalendarChecked_def)
  next
    case False
    with toggle_atOnce [OF assms(1) False] cb assms(2) show ?thesis
      by (auto simp: stepElement_def restoreTarget_def isCalendarChecked_def)
  qed
qed


lemma snapshot_lookup:
  assumes "\<forall>e\<in>set es. f e = k \<longrightarrow> g e = b"
    and "(\<exists>e\<in>set es. f e = k) \<or> map_of m k = Some b"
  shows "map_of (foldl (\<lambda>states e. AList.update (f e) (g e) states) m es) k = Some b"
  using assms
proof (induction es arbitrary: m)
  case Nil
  then show ?case by simp
next
  case (Cons e es)
  show ?case
  proof (cases "\<exists>e'\<in>set es. f e' = k")
    case True
    with Cons.IH [of "AList.update (f e) (g e) m"] Cons.prems(1) show ?thesis
      by simp
  next
    case False
    with Cons.prems have "map_of (AList.update (f e) (g e) m) k = Some b"
      by (auto simp: update_conv')
    with Cons.IH [of "AList.update (f e) (g e) m"] Cons.prems(1) show ?thesis
      by simp
  qed
qed




lemma elId_checkbox_update [simp]: "elId (e\<lparr>elCheckbox := c\<rparr>) = elId e"
  by (simp add: elId_def)

lemma fireTimer_static:
  "map elId (calendarElements (fireTimer h w)) = map elId (calendarElements w)"
  "map (\<lambda>e. elCheckbox e = None) (calendarElements (fireTimer h w))
     = map (\<lambda>e. elCheckbox e = None) (calendarElements w)"
  "currentActiveGroup (fireTimer h w) = currentActiveGroup w"
  "originalCalendarStates (fireTimer h w) = originalCalendarStates w"
  by (auto simp: fireTimer_def map_update list_update_same_conv
      split: list.splits prod.splits option.splits)

lemma fireTimers_static:
  "map elId (calendarElements (fireTimers h k w)) = map elId (calendarElements w)"
  "map (\<lambda>e. elCheckbox e = None) (calendarElements (fireTimers h k w))
     = map (\<lambda>e. elCheckbox e = None) (calendarElements w)"
  "currentActiveGroup (fireTimers h k w) = currentActiveGroup w"
  "originalCalendarStates (fireTimers h k w) = originalCalendarStates w"
  by (induction k arbitrary: w) (simp_all add: fireTimer_static)

lemma showAllCalendars_elements:
  "calendarElements (showAllCalendars h w)
     = map (stepElement h (restoreTarget (originalCalendarStates w))) (calendarElements w)"
  by (simp add: showAllCalendars_def runLoop_elements)

lemma showAllCalendars_reads_snapshot:
  assumes "convergesAtOnce h" "i < length (calendarElements w)"
    and "map_of (originalCalendarStates w) (elId (calendarElements w ! i)) = Some v"
    and "elCheckbox (calendarElements w ! i) \<noteq> None"
  shows "isCalendarChecked (calendarElements (showAllCalendars h w) ! i) = v"
  using assms by (simp add: showAllCalendars_elements restore_reads_snapshot)

lemma toggleGroup_activate:
  assumes "lookupGroup groups g = Some (StoredGroup ids)" "currentActiveGroup w \<noteq> Some g"
  shows "toggleGroup h groups g w =
     Inr ((runLoop h (showTarget ids)
            (hideAllCalendars h
              (if originalCalendarStates w = [] then saveCurrentCalendarStates w else w)))
          \<lparr>currentActiveGroup := Some g\<rparr>)"
  using assms by (simp add: toggleGroup_def showCalendarsInGroup_def Let_def)

lemma activate_elements:
  "calendarElements ((runLoop h (showTarget ids)
            (hideAllCalendars h
              (if originalCalendarStates w = [] then saveCurrentCalendarStates w else w)))
          \<lparr>currentActiveGroup := Some g\<rparr>)
   = map (stepElement h (showTarget ids) \<circ> stepElement h hideTarget) (calendarElements w)"
  by (simp add: runLoop_elements hideAllCalendars_def saveCurrentCalendarStates_def)

lemma activate_snapshot:
  "originalCalendarStates ((runLoop h (showTarget ids)
            (hideAllCalendars h
              (if originalCalendarStates w = [] then saveCurrentCalendarStates w else w)))
          \<lparr>currentActiveGroup := Some g\<rparr>)
   = (if originalCalendarStates w = []
      then foldl (\<lambda>states e. AList.update (elId e) (isCalendarChecked e) states) [] (calendarElements w)
      else originalCalendarStates w)"
  by (simp add: hideAllCalendars_def saveCurrentCalendarStates_def)

lemma activated_static:
  fixes h ids w g
  defines "w1 \<equiv> (runLoop h (showTarget ids)
            (hideAllCalendars h
              (if originalCalendarStates w = [] then saveCurrentCalendarStates w else w)))
          \<lparr>currentActiveGroup := Some g\<rparr>"
  shows "map elId (calendarElements (fireTimers h k w1)) = map elId (calendarElements w)"
    and "map (\<lambda>e. elCheckbox e = None) (calendarElements (fireTimers h k w1))
      = map (\<lambda>e. elCheckbox e = None) (calendarElements w)"
proof -
  have e: "calendarElements w1
      = map (stepElement h (showTarget ids) \<circ> stepElement h hideTarget) (calendarElements w)"
    unfolding w1_def by (rule activate_elements)
  have "map elId (calendarElements (fireTimers h k w1)) = map elId (calendarElements w1)"
    by (rule fireTimers_static(1))
  also have "\<dots> = map elId (calendarElements w)"
    unfolding e by (simp add: comp_def)
  finally show "map elId (calendarElements (fireTimers h k w1)) = map elId (calendarElements w)" .
  have "map (\<lambda>e. elCheckbox e = None) (calendarElements (fireTimers h k w1))
      = map (\<lambda>e. elCheckbox e = None) (calendarElements w1)"
    by (rule fireTimers_static(2))
  also have "\<dots> = map (\<lambda>e. elCheckbox e = None) (calendarElements w)"
    unfolding e by (simp add: comp_def)
  finally show "map (\<lambda>e. elCheckbox e = None) (calendarElements (fireTimers h k w1))
      = map (\<lambda>e. elCheckbox e = None) (calendarElements w)" .
qed


lemma converges_inputHost: "converges inputHost"
  unfolding converges_def
proof
  fix cb
  show "\<exists>cb'. inputHost Click cb = Some cb' \<and> checkboxState cb' = (\<not> checkboxState cb)"
    by (cases "checkboxState cb") (auto simp: inputHost_def checkboxState_def)
qed

lemma restore_without_control:
  assumes "elCheckbox e = None"
  shows "isCalendarChecked (stepElement h target e) = False"
  using assms by (simp add: stepElement_def isCalendarChecked_def)

lemma elId_calendarItem: "elId (calendarItem (c # cs) label b) = c # cs"
  by (simp add: elId_def calendarItem_def getCalendarId_def possibleAttributes_def truthy_def)

lemma calendarItem_checked: "isCalendarChecked (calendarItem cid label b) = b"
  by (simp add: isCalendarChecked_def calendarItem_def inputBox_def checkboxState_def)



lemma restore_after_activation:
  fixes h ids w g k
  defines "w2 \<equiv> fireTimers h k ((runLoop h (showTarget ids)
            (hideAllCalendars h
              (if originalCalendarStates w = [] then saveCurrentCalendarStates w else w)))
          \<lparr>currentActiveGroup := Some g\<rparr>)"
  assumes conv: "convergesAtOnce h" and i: "i < length (calendarElements w)"
    and look: "map_of (originalCalendarStates w2) (elId (calendarElements w ! i)) = Some v"
    and box: "elCheckbox (calendarElements w ! i) \<noteq> None"
  shows "isCalendarChecked (calendarElements (showAllCalendars h w2) ! i) = v"
proof -
  have ids2: "map elId (calendarElements w2) = map elId (calendarElements w)"
    unfolding w2_def by (rule activated_static(1))
  have box2: "map (\<lambda>e. elCheckbox e = None) (calendarElements w2)
      = map (\<lambda>e. elCheckbox e = None) (calendarElements w)"
    unfolding w2_def by (rule activated_static(2))
  from ids2 have len: "length (calendarElements w2) = length (calendarElements w)"
    using length_map by metis
  with i have i2: "i < length (calendarElements w2)"
    by simp
  have "map elId (calendarElements w2) ! i = map elId (calendarElements w) ! i"
    by (simp only: ids2)
  with i i2 have id: "elId (calendarElements w2 ! i) = elId (calendarElements w ! i)"
    by simp
  have "map (\<lambda>e. elCheckbox e = None) (calendarElements w2) ! i
      = map (\<lambda>e. elCheckbox e = None) (calendarElements w) ! i"
    by (simp only: box2)
  with i i2 box have b2: "elCheckbox (calendarElements w2 ! i) \<noteq> None"
    by simp
  from look id have "map_of (originalCalendarStates w2) (elId (calendarElements w2 ! i)) = Some v"
    by simp
  from showAllCalendars_reads_snapshot [OF conv i2 this b2] show ?thesis .
qed

section \<open>Settled worlds\<close>

lemma fireTimer_step:
  assumes "timers w = t # ts"
  shows "calendarElements (fireTimer h w) = applyTimer h t (calendarElements w)"
    and "timers (fireTimer h w) = ts"
  using assms
  by (auto simp: fireTimer_def applyTimer_def split: prod.splits option.splits)

lemma fireTimers_all:
  assumes "length (timers w) = n"
  shows "calendarElements (fireTimers h n w) = foldl (\<lambda>es t. applyTimer h t es) (calendarElements w) (timers w)
     \<and> timers (fireTimers h n w) = []"
  using assms
proof (induction n arbitrary: w)
  case 0
  then show ?case by simp
next
  case (Suc n)
  then obtain t ts where t: "timers w = t # ts"
    by (cases "timers w") auto
  with Suc.prems have "length (timers (fireTimer h w)) = n"
    by (simp add: fireTimer_step(2) [OF t])
  from Suc.IH [OF this] show ?case
    by (simp add: fireTimer_step [OF t] t)
qed

lemma settle_elements:
  "calendarElements (settle h w) = foldl (\<lambda>es t. applyTimer h t es) (calendarElements w) (timers w)"
  and settle_timers: "timers (settle h w) = []"
  using fireTimers_all [of w "length (timers w)" h] by (simp_all add: settle_def)

lemma settle_static:
  "map elId (calendarElements (settle h w)) = map elId (calendarElements w)"
  "map (\<lambda>e. elCheckbox e = None) (calendarElements (settle h w))
     = map (\<lambda>e. elCheckbox e = None) (calendarElements w)"
  "currentActiveGroup (settle h w) = currentActiveGroup w"
  "originalCalendarStates (settle h w) = originalCalendarStates w"
  by (simp_all add: settle_def fireTimers_static)

lemma settled_pass:
  assumes "forEachElement h target i es = (es', ts, js)" and "length pre = i"
  shows "foldl (\<lambda>es t. applyTimer h t es) (pre @ es') ts = pre @ map (settledStep h target) es"
  using assms
proof (induction es arbitrary: i pre es' ts js)
  case Nil
  then show ?case by simp
next
  case (Cons e es)
  obtain es1 ts1 js1 where r: "forEachElement h target (Suc i) es = (es1, ts1, js1)"
    by (cases "forEachElement h target (Suc i) es") auto
  show ?case
  proof (cases "elCheckbox e")
    case None
    with Cons.prems r have eq: "es' = e # es1" "ts = ts1"
      by auto
    have "length (pre @ [e]) = Suc i"
      using Cons.prems(2) by simp
    from Cons.IH [OF r this] eq None show ?thesis
      by (simp add: settledStep_def)
  next
    case (Some cb)
    show ?thesis
    proof (cases "target e")
      case None
      with Some Cons.prems r have eq: "es' = e # es1" "ts = ts1"
        by auto
      have "length (pre @ [e]) = Suc i"
        using Cons.prems(2) by simp
      from Cons.IH [OF r this] eq None Some show ?thesis
        by (simp add: settledStep_def)
    next
      case (Some v)
      note tv = this
      obtain cb' scheduled acts where t: "toggleCalendarVisibility h cb v = (cb', scheduled, acts)"
        by (cases "toggleCalendarVisibility h cb v") auto
      let ?e1 = "e\<lparr>elCheckbox := Some cb'\<rparr>"
      let ?e2 = "e\<lparr>elCheckbox := Some (setOutcome h cb v)\<rparr>"
      from Cons.prems r \<open>elCheckbox e = Some cb\<close> tv t
      have eq: "es' = ?e1 # es1" "ts = (if scheduled then [(i, v)] else []) @ ts1"
        by auto
      have step: "settledStep h target e = ?e2"
        using \<open>elCheckbox e = Some cb\<close> tv by (simp add: settledStep_def)
      have len: "length (pre @ [?e2]) = Suc i"
        using Cons.prems(2) by simp
      show ?thesis
      proof (cases scheduled)
        case True
        then have out: "setOutcome h cb v = fst (verifyToggle h cb' v)"
          by (simp add: setOutcome_def t)
        have "applyTimer h (i, v) (pre @ ?e1 # es1) = pre @ ?e2 # es1"
          using Cons.prems(2) by (simp add: applyTimer_def nth_append out list_update_append)
        with True eq have "foldl (\<lambda>es t. applyTimer h t es) (pre @ es') ts
            = foldl (\<lambda>es t. applyTimer h t es) ((pre @ [?e2]) @ es1) ts1"
          by simp
        also have "\<dots> = (pre @ [?e2]) @ map (settledStep h target) es"
          by (rule Cons.IH [OF r len])
        finally show ?thesis
          by (simp add: step)
      next
        case False
        then have out: "setOutcome h cb v = cb'"
          by (simp add: setOutcome_def t)
        with False eq have "foldl (\<lambda>es t. applyTimer h t es) (pre @ es') ts
            = foldl (\<lambda>es t. applyTimer h t es) ((pre @ [?e2]) @ es1) ts1"
          by simp
        also have "\<dots> = (pre @ [?e2]) @ map (settledStep h target) es"
          by (rule Cons.IH [OF r len])
        finally show ?thesis
          by (simp add: step)
      qed
    qed
  qed
qed

lemma settle_runLoop:
  assumes "timers w = []"
  shows "calendarElements (settle h (runLoop h target w)) = map (settledStep h target) (calendarElements w)"
proof -
  obtain es ts js where r: "forEachElement h target 0 (calendarElements w) = (es, ts, js)"
    by (cases "forEachElement h target 0 (calendarElements w)") auto
  from settled_pass [OF r, of "[]"] assms show ?thesis
    by (simp add: settle_elements runLoop_def r)
qed

lemma settle_showAllCalendars:
  assumes "timers w = []"
  shows "calendarElements (settle h (showAllCalendars h w))
     = map (settledStep h (restoreTarget (originalCalendarStates w))) (calendarElements w)"
proof -
  have "calendarElements (settle h (showAllCalendars h w))
      = calendarElements (settle h (runLoop h (restoreTarget (originalCalendarStates w)) w))"
    by (simp add: settle_elements showAllCalendars_def)
  with settle_runLoop [OF assms] show ?thesis
    by simp
qed

lemma settled_restore_reads_snapshot:
  assumes "setConverges h" "map_of states (elId e) = Some v" "elCheckbox e \<noteq> None"
  shows "isCalendarChecked (settledStep h (restoreTarget states) e) = v"
proof -
  from assms(3) obtain cb where cb: "elCheckbox e = Some cb"
    by auto
  show ?thesis
  proof (cases "checkboxState cb = v")
    case True
    with cb assms(2) show ?thesis
      by (simp add: settledStep_def restoreTarget_def isCalendarChecked_def)
  next
    case False
    with assms(1) have "checkboxState (setOutcome h cb v) = v"
      unfolding setConverges_def by blast
    with False cb assms(2) show ?thesis
      by (auto simp: settledStep_def restoreTarget_def isCalendarChecked_def)
  qed
qed

lemma settled_without_control:
  assumes "elCheckbox e = None"
  shows "isCalendarChecked (settledStep h target e) = False"
  using assms by (simp add: settledStep_def isCalendarChecked_def)

lemma restored_visibilities:
  fixes F :: "element \<Rightarrow> element"
  defines "snap es \<equiv> foldl (\<lambda>states e. AList.update (elId e) (isCalendarChecked e) states) [] es"
  assumes same: "\<forall>e1\<in>set es. \<forall>e2\<in>set es. elId e1 = elId e2 \<longrightarrow> isCalendarChecked e1 = isCalendarChecked e2"
    and ids: "map elId es2 = map elId es"
    and boxes: "map (\<lambda>e. elCheckbox e = None) es2 = map (\<lambda>e. elCheckbox e = None) es"
    and none: "\<And>e. elCheckbox e = None \<Longrightarrow> isCalendarChecked (F e) = False"
    and some: "\<And>e v. map_of (snap es) (elId e) = Some v \<Longrightarrow> elCheckbox e \<noteq> None \<Longrightarrow> isCalendarChecked (F e) = v"
  shows "map isCalendarChecked (map F es2) = map isCalendarChecked es"
proof (rule nth_equalityI)
  from ids have len: "length es2 = length es"
    using length_map by metis
  then show "length (map isCalendarChecked (map F es2)) = length (map isCalendarChecked es)"
    by simp
  fix i
  assume "i < length (map isCalendarChecked (map F es2))"
  with len have i: "i < length es" and i2: "i < length es2"
    by simp_all
  define e where "e = es ! i"
  define e2 where "e2 = es2 ! i"
  have "map elId es2 ! i = map elId es ! i"
    by (simp only: ids)
  with i i2 have id: "elId e2 = elId e"
    by (simp add: e_def e2_def)
  have "map (\<lambda>e. elCheckbox e = None) es2 ! i = map (\<lambda>e. elCheckbox e = None) es ! i"
    by (simp only: boxes)
  with i i2 have box: "(elCheckbox e2 = None) = (elCheckbox e = None)"
    by (simp add: e_def e2_def)
  from i have mem: "e \<in> set es"
    by (simp add: e_def)
  have look: "map_of (snap es) (elId e) = Some (isCalendarChecked e)"
    unfolding snap_def
  proof (rule snapshot_lookup)
    show "\<forall>e'\<in>set es. elId e' = elId e \<longrightarrow> isCalendarChecked e' = isCalendarChecked e"
      using same mem by blast
    show "(\<exists>e'\<in>set es. elId e' = elId e) \<or> map_of [] (elId e) = Some (isCalendarChecked e)"
      using mem by blast
  qed
  have "isCalendarChecked (F e2) = isCalendarChecked e"
  proof (cases "elCheckbox e = None")
    case True
    with box none [of e2] show ?thesis
      by (simp add: isCalendarChecked_def)
  next
    case False
    with box have "elCheckbox e2 \<noteq> None"
      by simp
    moreover from look id have "map_of (snap es) (elId e2) = Some (isCalendarChecked e)"
      by simp
    ultimately show ?thesis
      using some by blast
  qed
  with i i2 show "map isCalendarChecked (map F es2) ! i = map isCalendarChecked es ! i"
    by (simp add: e_def e2_def)
qed

lemma setConverges_ladderHost: "setConverges ladderHost"
proof -
  have on: "checkboxState (setOutcome ladderHost cb True)" if "\<not> checkboxState cb" for cb
    using that
    by (auto simp: setOutcome_def toggleCalendarVisibility_def verifyToggle_def
        forceCalendarState_def ladderHost_def inputHost_def directSet_def checkboxState_def
        boolString_def Let_def)
  have off: "\<not> checkboxState (setOutcome ladderHost cb False)" if "checkboxState cb" for cb
    using that
    by (auto simp: setOutcome_def toggleCalendarVisibility_def verifyToggle_def
        forceCalendarState_def ladderHost_def inputHost_def directSet_def checkboxState_def
        boolString_def Let_def)
  show ?thesis
    unfolding setConverges_def
  proof (intro allI impI)
    fix cb visible
    assume "checkboxState cb \<noteq> visible"
    then show "checkboxState (setOutcome ladderHost cb visible) = visible"
      using on [of cb] off [of cb] by (cases visible) auto
  qed
qed

section \<open>Properties of the group manager\<close>

text \<open>
  Claim C1, amended: start from Idle with no snapshot held, on a page where items that
  share an id have the same visibility (in particular where the ids are pairwise
  distinct), and activate a stored group. (a) If every call of
  \<open>toggleCalendarVisibility\<close> leaves its control at the target when it returns, then
  right after a following \<open>showAllCalendars\<close> returns every item has the visibility it
  had before the activation, whatever number \<open>k\<close> of pending verification callbacks ran
  between the two calls. (b) If every toggle converges, be it only through the ladder
  of its delayed verification, then every item has the visibility it had before the
  activation once the callbacks have run, those of the activation before
  \<open>showAllCalendars\<close> is called and those of \<open>showAllCalendars\<close> after it.
\<close>

theorem C1_round_trip:
  assumes idle: "currentActiveGroup w = None" "originalCalendarStates w = []"
    and grp: "lookupGroup groups g = Some (StoredGroup ids)"
    and same: "\<forall>e1\<in>set (calendarElements w). \<forall>e2\<in>set (calendarElements w).
        elId e1 = elId e2 \<longrightarrow> isCalendarChecked e1 = isCalendarChecked e2"
  shows "returns (toggleGroup h groups g w)
     \<and> (convergesAtOnce h \<longrightarrow>
          visibilities (showAllCalendars h (fireTimers h k (worldOf (toggleGroup h groups g w))))
            = visibilities w)
     \<and> (setConverges h \<longrightarrow>
          visibilities (settle h (showAllCalendars h (settle h (worldOf (toggleGroup h groups g w)))))
            = visibilities w)"
proof -
  define w1 where "w1 = (runLoop h (showTarget ids)
            (hideAllCalendars h
              (if originalCalendarStates w = [] then saveCurrentCalendarStates w else w)))
          \<lparr>currentActiveGroup := Some g\<rparr>"
  define snap where "snap = foldl (\<lambda>states e. AList.update (elId e) (isCalendarChecked e) states) []
      (calendarElements w)"
  have act: "toggleGroup h groups g w = Inr w1"
    unfolding w1_def using idle(1) by (intro toggleGroup_activate [OF grp]) simp
  have snap1: "originalCalendarStates w1 = snap"
    unfolding w1_def snap_def using idle(2)
    by (simp add: hideAllCalendars_def saveCurrentCalendarStates_def)
  have atOnce: "visibilities (showAllCalendars h (fireTimers h k w1)) = visibilities w"
    if conv: "convergesAtOnce h"
  proof -
    define w2 where "w2 = fireTimers h k w1"
    have snap2: "originalCalendarStates w2 = snap"
      unfolding w2_def by (simp add: fireTimers_static(4) snap1)
    have ids2: "map elId (calendarElements w2) = map elId (calendarElements w)"
      unfolding w2_def w1_def by (rule activated_static(1))
    have box2: "map (\<lambda>e. elCheckbox e = None) (calendarElements w2)
        = map (\<lambda>e. elCheckbox e = None) (calendarElements w)"
      unfolding w2_def w1_def by (rule activated_static(2))
    have "map isCalendarChecked (map (stepElement h (restoreTarget snap)) (calendarElements w2))
        = map isCalendarChecked (calendarElements w)"
    proof (rule restored_visibilities [OF same ids2 box2])
      fix e :: element
      assume "elCheckbox e = None"
      then show "isCalendarChecked (stepElement h (restoreTarget snap) e) = False"
        by (rule restore_without_control)
    next
      fix e :: element and v
      assume "map_of (foldl (\<lambda>states e. AList.update (elId e) (isCalendarChecked e) states) []
          (calendarElements w)) (elId e) = Some v" and "elCheckbox e \<noteq> None"
      then show "isCalendarChecked (stepElement h (restoreTarget snap) e) = v"
        unfolding snap_def by (rule restore_reads_snapshot [OF conv])
    qed
    then show ?thesis
      by (simp add: visibilities_def showAllCalendars_elements snap2 [unfolded w2_def] w2_def)
  qed
  have settled: "visibilities (settle h (showAllCalendars h (settle h w1))) = visibilities w"
    if conv: "setConverges h"
  proof -
    define w2 where "w2 = settle h w1"
    have snap2: "originalCalendarStates w2 = snap"
      unfolding w2_def by (simp add: settle_static(4) snap1)
    have ids2: "map elId (calendarElements w2) = map elId (calendarElements w)"
      unfolding w2_def settle_def w1_def by (rule activated_static(1))
    have box2: "map (\<lambda>e. elCheckbox e = None) (calendarElements w2)
        = map (\<lambda>e. elCheckbox e = None) (calendarElements w)"
      unfolding w2_def settle_def w1_def by (rule activated_static(2))
    have none2: "timers w2 = []"
      unfolding w2_def by (rule settle_timers)
    have "map isCalendarChecked (map (settledStep h (restoreTarget snap)) (calendarElements w2))
        = map isCalendarChecked (calendarElements w)"
    proof (rule restored_visibilities [OF same ids2 box2])
      fix e :: element
      assume "elCheckbox e = None"
      then show "isCalendarChecked (settledStep h (restoreTarget snap) e) = False"
        by (rule settled_without_control)
    next
      fix e :: element and v
      assume "map_of (foldl (\<lambda>states e. AList.update (elId e) (isCalendarChecked e) states) []
          (calendarElements w)) (elId e) = Some v" and "elCheckbox e \<noteq> None"
      then show "isCalendarChecked (settledStep h (restoreTarget snap) e) = v"
        unfolding snap_def by (rule settled_restore_reads_snapshot [OF conv])
    qed
    then show ?thesis
      by (simp add: visibilities_def settle_showAllCalendars [OF none2, unfolded w2_def]
          snap2 [unfolded w2_def] w2_def)
  qed
  from act atOnce settled show ?thesis
    by (simp add: returns_def worldOf_def)
qed

theorem C1_round_trip_witness:
  "visibilities (showAllCalendars inputHost
      (fireTimers inputHost 3 (worldOf (toggleGroup inputHost abcGroups ''g1'' abcWorld))))
     = [True, False, True]
   \<and> visibilities (settle ladderHost (showAllCalendars ladderHost
        (settle ladderHost (worldOf (toggleGroup ladderHost abcGroups ''g1'' abcWorld)))))
     = [True, False, True]"
proof -
  have h2: "currentActiveGroup abcWorld = None" and h3: "originalCalendarStates abcWorld = []"
    by (simp_all add: abcWorld_def idleWorld_def)
  have h4: "lookupGroup abcGroups ''g1'' = Some (StoredGroup [''A'', ''B''])"
    by (simp add: lookupGroup_def abcGroups_def)
  have h5: "\<forall>e1\<in>set (calendarElements abcWorld). \<forall>e2\<in>set (calendarElements abcWorld).
        elId e1 = elId e2 \<longrightarrow> isCalendarChecked e1 = isCalendarChecked e2"
    by (simp add: abcWorld_def idleWorld_def elId_calendarItem)
  have v: "visibilities abcWorld = [True, False, True]"
    by (simp add: visibilities_def abcWorld_def idleWorld_def calendarItem_checked)
  have c1: "convergesAtOnce inputHost"
    by (rule converges_atOnce [OF converges_inputHost])
  from C1_round_trip [OF h2 h3 h4 h5, of inputHost 3] c1
  have a: "visibilities (showAllCalendars inputHost
      (fireTimers inputHost 3 (worldOf (toggleGroup inputHost abcGroups ''g1'' abcWorld))))
     = visibilities abcWorld"
    by blast
  from C1_round_trip [OF h2 h3 h4 h5, of ladderHost] setConverges_ladderHost
  have b: "visibilities (settle ladderHost (showAllCalendars ladderHost
        (settle ladderHost (worldOf (toggleGroup ladderHost abcGroups ''g1'' abcWorld)))))
     = visibilities abcWorld"
    by blast
  from a b v show ?thesis
    by (simp only: simp_thms)
qed

text \<open>
  Claim C1, as stated, at three inputs.
  Two calendars of the same name, the first visible and the second hidden: both get the
  generated id \<open>cal_work_work_0\<close>, the snapshot keeps one entry for it (the second
  item's), and after activation of an empty group and restore the first item is hidden,
  before and after the callbacks.
  Idle with a snapshot still held, as a \<open>toggleGroup\<close> that threw after its capture
  leaves it: the next activation does not capture, and the restore brings back the
  held snapshot, not the visibilities \<open>[False, False, False]\<close> that preceded the
  activation.
  A page where every toggle converges, but only through the delayed ladder: right after
  the restore returns, the callbacks of the activation having run, the visibilities are
  \<open>[False, True, False]\<close>, not those that preceded the activation; and so they are
  once all callbacks have run, when the restore was called before those of the
  activation ran.
\<close>

theorem C1_round_trip_counterexample:
  "map elId (calendarElements twinWorld) = [''cal_work_work_0'', ''cal_work_work_0'']
   \<and> visibilities twinWorld = [True, False]
   \<and> visibilities (showAllCalendars inputHost (worldOf (toggleGroup inputHost [(''g'', [])] ''g'' twinWorld)))
       = [False, False]
   \<and> visibilities (settle inputHost (showAllCalendars inputHost
        (settle inputHost (worldOf (toggleGroup inputHost [(''g'', [])] ''g'' twinWorld)))))
       = [False, False]
   \<and> currentActiveGroup staleWorld = None
   \<and> originalCalendarStates staleWorld = [(''A'', True), (''B'', False), (''C'', True)]
   \<and> visibilities staleWorld = [False, False, False]
   \<and> visibilities (showAllCalendars inputHost (worldOf (toggleGroup inputHost abcGroups ''g1'' staleWorld)))
       = [True, False, True]
   \<and> setConverges ladderHost
   \<and> visibilities abcWorld = [True, False, True]
   \<and> visibilities (showAllCalendars ladderHost
        (settle ladderHost (worldOf (toggleGroup ladderHost abcGroups ''g1'' abcWorld))))
       = [False, True, False]
   \<and> visibilities (settle ladderHost (showAllCalendars ladderHost
        (worldOf (toggleGroup ladderHost abcGroups ''g1'' abcWorld))))
       = [False, True, False]"
proof -
  have a: "map elId (calendarElements twinWorld) = [''cal_work_work_0'', ''cal_work_work_0'']
   \<and> visibilities twinWorld = [True, False]
   \<and> visibilities (showAllCalendars inputHost (worldOf (toggleGroup inputHost [(''g'', [])] ''g'' twinWorld)))
       = [False, False]
   \<and> visibilities (settle inputHost (showAllCalendars inputHost
        (settle inputHost (worldOf (toggleGroup inputHost [(''g'', [])] ''g'' twinWorld)))))
       = [False, False]"
    by code_simp
  have b: "currentActiveGroup staleWorld = None
   \<and> originalCalendarStates staleWorld = [(''A'', True), (''B'', False), (''C'', True)]
   \<and> visibilities staleWorld = [False, False, False]
   \<and> visibilities (showAllCalendars inputHost (worldOf (toggleGroup inputHost abcGroups ''g1'' staleWorld)))
       = [True, False, True]"
    by code_simp
  have c: "visibilities abcWorld = [True, False, True]
   \<and> visibilities (showAllCalendars ladderHost
        (settle ladderHost (worldOf (toggleGroup ladderHost abcGroups ''g1'' abcWorld))))
       = [False, True, False]
   \<and> visibilities (settle ladderHost (showAllCalendars ladderHost
        (worldOf (toggleGroup ladderHost abcGroups ''g1'' abcWorld))))
       = [False, True, False]"
    by code_simp
  from a b c setConverges_ladderHost show ?thesis
    by (simp only: simp_thms)
qed




text \<open>
  Claim C3, amended: when a group is activated while another group is active and the
  snapshot is not empty, the snapshot is not recaptured: it is the same map before and
  after the call, and the new group becomes the active one. A later
  \<open>showAllCalendars\<close> (after any number \<open>k\<close> of pending verification callbacks) then
  brings every item that has a snapshot entry and a control to the visibility recorded
  in that snapshot, provided every primary activation registers. (The guard of the
  capture is the emptiness of the snapshot, not the absence of an active group.)
\<close>

theorem C3_snapshot_kept_on_switch:
  assumes active: "currentActiveGroup w = Some g1" and diff: "g1 \<noteq> g2"
    and saved: "originalCalendarStates w \<noteq> []"
    and grp: "lookupGroup groups g2 = Some (StoredGroup ids)"
  shows "returns (toggleGroup h groups g2 w)
     \<and> originalCalendarStates (worldOf (toggleGroup h groups g2 w)) = originalCalendarStates w
     \<and> currentActiveGroup (worldOf (toggleGroup h groups g2 w)) = Some g2
     \<and> (converges h \<longrightarrow>
          (\<forall>i v. i < length (calendarElements w)
             \<and> map_of (originalCalendarStates w) (elId (calendarElements w ! i)) = Some v
             \<and> elCheckbox (calendarElements w ! i) \<noteq> None
           \<longrightarrow> visibilities (showAllCalendars h (fireTimers h k (worldOf (toggleGroup h groups g2 w)))) ! i = v))"
proof -
  define w1 where "w1 = (runLoop h (showTarget ids)
            (hideAllCalendars h
              (if originalCalendarStates w = [] then saveCurrentCalendarStates w else w)))
          \<lparr>currentActiveGroup := Some g2\<rparr>"
  from active diff have other: "currentActiveGroup w \<noteq> Some g2"
    by simp
  have act: "toggleGroup h groups g2 w = Inr w1"
    unfolding w1_def by (rule toggleGroup_activate [OF grp other])
  have snap1: "originalCalendarStates w1 = originalCalendarStates w"
    unfolding w1_def using saved by (simp add: hideAllCalendars_def)
  have cur1: "currentActiveGroup w1 = Some g2"
    by (simp add: w1_def)
  have restore: "visibilities (showAllCalendars h (fireTimers h k w1)) ! i = v"
    if conv: "converges h" and i: "i < length (calendarElements w)"
      and look: "map_of (originalCalendarStates w) (elId (calendarElements w ! i)) = Some v"
      and box: "elCheckbox (calendarElements w ! i) \<noteq> None"
    for i v
  proof -
    have snap2: "originalCalendarStates (fireTimers h k w1) = originalCalendarStates w"
      by (simp add: fireTimers_static(4) snap1)
    have "map elId (calendarElements (fireTimers h k w1)) = map elId (calendarElements w)"
      unfolding w1_def by (rule activated_static(1))
    then have len: "length (calendarElements (fireTimers h k w1)) = length (calendarElements w)"
      using length_map by metis
    from look snap2
    have "map_of (originalCalendarStates (fireTimers h k w1)) (elId (calendarElements w ! i)) = Some v"
      by simp
    then have "isCalendarChecked (calendarElements (showAllCalendars h (fireTimers h k w1)) ! i) = v"
      unfolding w1_def by (rule restore_after_activation [OF converges_atOnce [OF conv] i _ box])
    with i len show ?thesis
      by (simp add: visibilities_def showAllCalendars_elements)
  qed
  from act snap1 cur1 restore show ?thesis
    by (simp add: returns_def worldOf_def)
qed

theorem C3_snapshot_kept_on_switch_witness:
  "originalCalendarStates (worldOf (toggleGroup inputHost abcGroups ''g2'' g1World))
     = [(''A'', True), (''B'', False), (''C'', True)]
   \<and> currentActiveGroup (worldOf (toggleGroup inputHost abcGroups ''g2'' g1World)) = Some ''g2''
   \<and> visibilities (showAllCalendars inputHost
        (fireTimers inputHost 2 (worldOf (toggleGroup inputHost abcGroups ''g2'' g1World)))) ! 0 = True"
proof -
  have h1: "currentActiveGroup g1World = Some ''g1''"
    by code_simp
  have h2: "''g1'' \<noteq> ''g2''"
    by simp
  have s: "originalCalendarStates g1World = [(''A'', True), (''B'', False), (''C'', True)]"
    by code_simp
  then have h3: "originalCalendarStates g1World \<noteq> []"
    by simp
  have h4: "lookupGroup abcGroups ''g2'' = Some (StoredGroup [''C''])"
    by (simp add: lookupGroup_def abcGroups_def)
  have i: "0 < length (calendarElements g1World)
      \<and> map_of (originalCalendarStates g1World) (elId (calendarElements g1World ! 0)) = Some True
      \<and> elCheckbox (calendarElements g1World ! 0) \<noteq> None"
    by code_simp
  note t = C3_snapshot_kept_on_switch [OF h1 h2 h3 h4, of inputHost 2]
  from t s have a: "originalCalendarStates (worldOf (toggleGroup inputHost abcGroups ''g2'' g1World))
     = [(''A'', True), (''B'', False), (''C'', True)]"
    by simp
  from t have b: "currentActiveGroup (worldOf (toggleGroup inputHost abcGroups ''g2'' g1World)) = Some ''g2''"
    by blast
  from t converges_inputHost i
  have c: "visibilities (showAllCalendars inputHost
        (fireTimers inputHost 2 (worldOf (toggleGroup inputHost abcGroups ''g2'' g1World)))) ! 0 = True"
    by blast
  from a b c show ?thesis
    by blast
qed

text \<open>
  Claim C3, as stated, at a manager whose first activation (\<open>g1\<close>) ran while the page
  showed no calendar: \<open>g1\<close> is active and the snapshot is empty. Activating \<open>g2\<close> once
  the calendars are there captures the snapshot: the map differs before and after the
  call.
\<close>

theorem C3_empty_snapshot_recaptured_counterexample:
  "currentActiveGroup lateWorld = Some ''g1''
   \<and> originalCalendarStates lateWorld = []
   \<and> originalCalendarStates (worldOf (toggleGroup inputHost abcGroups ''g2'' lateWorld))
       = [(''A'', True), (''B'', False), (''C'', True)]"
  by code_simp



text \<open>
  A group id for which \<open>groups[groupId]\<close> is \<open>undefined\<close> is rejected before anything
  is read or changed.
\<close>

lemma unknown_group_rejected:
  assumes "lookupGroup groups groupId = None"
  shows "handleToggleGroup h groups groupId w = (ErrorResponse GroupNotFound, w)"
  using assms by (simp add: handleToggleGroup_def toggleGroup_def)

text \<open>
  Claim C5 at the group id \<open>constructor\<close>, with no group stored: the id is absent from
  the persisted map, but \<open>groups[groupId]\<close> finds the member inherited from
  \<open>Object.prototype\<close>, so \<open>toggleGroup\<close> does not throw \<open>Group not found\<close>. It captures
  the snapshot and hides every visible calendar; then \<open>calendarIds.includes\<close> throws
  on the undefined selection, and the response carries that error.
\<close>

theorem C5_inherited_key_passes_lookup:
  "map_of ([] :: (string \<times> string list) list) ''constructor'' = None
   \<and> fst (handleToggleGroup inputHost [] ''constructor'' abcWorld) = ErrorResponse TypeError
   \<and> visibilities abcWorld = [True, False, True]
   \<and> visibilities (snd (handleToggleGroup inputHost [] ''constructor'' abcWorld)) = [False, False, False]
   \<and> originalCalendarStates abcWorld = []
   \<and> originalCalendarStates (snd (handleToggleGroup inputHost [] ''constructor'' abcWorld))
       = [(''A'', True), (''B'', False), (''C'', True)]"
  by code_simp

section \<open>Properties of the scanner\<close>

lemma set_addAll: "set (addAll elements xs) = set elements \<union> set xs"
  unfolding addAll_def by (induction xs arbitrary: elements) auto

lemma set_addAll_loop:
  "set (foldl (\<lambda>elements x. addAll elements (G x)) elements xs)
     = set elements \<union> (\<Union>x\<in>set xs. set (G x))"
  by (induction xs arbitrary: elements) (auto simp: set_addAll)

lemma set_addAll_loops:
  "set (foldl (\<lambda>elements pattern. foldl (\<lambda>elements x. addAll elements (G x)) elements (E pattern))
          elements patterns)
     = set elements \<union> (\<Union>pattern\<in>set patterns. \<Union>x\<in>set (E pattern). set (G x))"
  by (induction patterns arbitrary: elements) (auto simp: set_addAll_loop)

lemma evaluate_irrelevant:
  "querySelector (p\<lparr>evaluate := ev\<rparr>) = querySelector p"
  "findCalendarContainer (p\<lparr>evaluate := ev\<rparr>) = findCalendarContainer p"
  "isCalendarItem (p\<lparr>evaluate := ev\<rparr>) = isCalendarItem p"
  "getCheckboxElement (p\<lparr>evaluate := ev\<rparr>) = getCheckboxElement p"
  "controlOf (p\<lparr>evaluate := ev\<rparr>) = controlOf p"
proof -
  show q: "querySelector (p\<lparr>evaluate := ev\<rparr>) = querySelector p"
    by (simp add: fun_eq_iff querySelector_def)
  show "findCalendarContainer (p\<lparr>evaluate := ev\<rparr>) = findCalendarContainer p"
    by (simp add: fun_eq_iff findCalendarContainer_def Let_def cong: option.case_cong)
  show "isCalendarItem (p\<lparr>evaluate := ev\<rparr>) = isCalendarItem p"
    by (simp add: fun_eq_iff isCalendarItem_def q)
  show "getCheckboxElement (p\<lparr>evaluate := ev\<rparr>) = getCheckboxElement p"
    by (simp add: fun_eq_iff getCheckboxElement_def q cong: option.case_cong if_cong)
  show "controlOf (p\<lparr>evaluate := ev\<rparr>) = controlOf p"
    by (simp add: fun_eq_iff controlOf_def)
qed

lemma evaluate_irrelevant_passes:
  "acceptedContainers (p\<lparr>evaluate := ev\<rparr>) = acceptedContainers p"
  "itemOf (p\<lparr>evaluate := ev\<rparr>) = itemOf p"
  "patternContainers (p\<lparr>evaluate := ev\<rparr>) = patternContainers p"
  "nearbyContainers (p\<lparr>evaluate := ev\<rparr>) = nearbyContainers p"
  "findCalendarsInSections (p\<lparr>evaluate := ev\<rparr>) = findCalendarsInSections p"
  "findCalendarsFromCheckboxes (p\<lparr>evaluate := ev\<rparr>) = findCalendarsFromCheckboxes p"
  "findCalendarsInSidebar (p\<lparr>evaluate := ev\<rparr>) = findCalendarsInSidebar p"
proof -
  show a: "acceptedContainers (p\<lparr>evaluate := ev\<rparr>) = acceptedContainers p"
    by (simp add: fun_eq_iff acceptedContainers_def evaluate_irrelevant cong: option.case_cong)
  show "itemOf (p\<lparr>evaluate := ev\<rparr>) = itemOf p"
    by (simp add: fun_eq_iff itemOf_def evaluate_irrelevant)
  show "patternContainers (p\<lparr>evaluate := ev\<rparr>) = patternContainers p"
    by (simp add: fun_eq_iff patternContainers_def evaluate_irrelevant a cong: option.case_cong)
  show "nearbyContainers (p\<lparr>evaluate := ev\<rparr>) = nearbyContainers p"
    by (simp add: fun_eq_iff nearbyContainers_def a cong: option.case_cong)
  show "findCalendarsInSections (p\<lparr>evaluate := ev\<rparr>) = findCalendarsInSections p"
    by (simp add: fun_eq_iff findCalendarsInSections_def evaluate_irrelevant a cong: option.case_cong)
  show "findCalendarsFromCheckboxes (p\<lparr>evaluate := ev\<rparr>) = findCalendarsFromCheckboxes p"
    by (simp add: fun_eq_iff findCalendarsFromCheckboxes_def a)
  show "findCalendarsInSidebar (p\<lparr>evaluate := ev\<rparr>) = findCalendarsInSidebar p"
    by (simp add: fun_eq_iff findCalendarsInSidebar_def evaluate_irrelevant a cong: option.case_cong)
qed

lemma set_findCalendarsWithGooglePatterns:
  assumes "\<forall>pattern. set (ev pattern) = set (evaluate p pattern)"
  shows "set (findCalendarsWithGooglePatterns (p\<lparr>evaluate := ev\<rparr>) elements)
     = set (findCalendarsWithGooglePatterns p elements)"
  using assms
  by (simp add: findCalendarsWithGooglePatterns_def Let_def set_addAll_loops
      evaluate_irrelevant_passes)

lemma set_getCalendarElements:
  assumes "\<forall>pattern. set (ev pattern) = set (evaluate p pattern)"
  shows "set (getCalendarElements (p\<lparr>evaluate := ev\<rparr>)) = set (getCalendarElements p)"
  by (simp add: getCalendarElements_def evaluate_irrelevant_passes
      set_findCalendarsWithGooglePatterns [OF assms])


lemma getAvailableCalendars_scanInto:
  "getAvailableCalendars (scanInto p w) =
     map (\<lambda>x. \<lparr>info_id = getCalendarId (subtree p x) (siblingIndex p x),
                info_name = getCalendarName (subtree p x) (siblingIndex p x),
                info_visible =
                  (case getCheckboxElement p x of
                     None \<Rightarrow> False
                   | Some checkbox \<Rightarrow> checkboxState (controlOf p checkbox))\<rparr>)
       (getCalendarElements p)"
proof -
  have "isCalendarChecked (itemOf p x) =
      (case getCheckboxElement p x of
         None \<Rightarrow> False
       | Some checkbox \<Rightarrow> checkboxState (controlOf p checkbox))" for x
    by (cases "getCheckboxElement p x") (simp_all add: isCalendarChecked_def itemOf_def)
  then show ?thesis
    by (simp add: getAvailableCalendars_def scanInto_def getCalendarItems_def elId_def
        elName_def comp_def itemOf_def)
qed

text \<open>
  Claim C9: take two scans of a page that answers every query alike, the unordered XPath
  snapshots having the same members in whatever order. Both find the same set of
  elements, and \<open>getAvailableCalendars\<close> yields the same set of entries; the id and the
  name of an entry are functions of the element's subtree and sibling index, its
  visibility flag is what \<open>isCalendarChecked\<close> reads from the element's control.
  \<open>handleGetCalendars\<close> changes nothing but \<open>isInitialized\<close> and interacts with no
  control, so that a second call answers what the first one answered.
\<close>

theorem C9_scan_repeatable:
  assumes "\<forall>pattern. set (ev pattern) = set (evaluate p pattern)"
  shows "set (getCalendarElements (p\<lparr>evaluate := ev\<rparr>)) = set (getCalendarElements p)
     \<and> set (getAvailableCalendars (scanInto (p\<lparr>evaluate := ev\<rparr>) w))
         = set (getAvailableCalendars (scanInto p w))
     \<and> getAvailableCalendars (scanInto p w) =
         map (\<lambda>x. \<lparr>info_id = getCalendarId (subtree p x) (siblingIndex p x),
                    info_name = getCalendarName (subtree p x) (siblingIndex p x),
                    info_visible =
                      (case getCheckboxElement p x of
                         None \<Rightarrow> False
                       | Some checkbox \<Rightarrow> checkboxState (controlOf p checkbox))\<rparr>)
           (getCalendarElements p)
     \<and> fst (handleGetCalendars (snd (handleGetCalendars (scanInto p w))))
         = fst (handleGetCalendars (scanInto p w))
     \<and> snd (handleGetCalendars (scanInto p w)) = (scanInto p w)\<lparr>isInitialized := True\<rparr>"
proof -
  have els: "set (getCalendarElements (p\<lparr>evaluate := ev\<rparr>)) = set (getCalendarElements p)"
    by (rule set_getCalendarElements [OF assms])
  have "set (getAvailableCalendars (scanInto (p\<lparr>evaluate := ev\<rparr>) w))
      = (\<lambda>x. \<lparr>info_id = elId (itemOf p x), info_name = elName (itemOf p x),
                info_visible = isCalendarChecked (itemOf p x)\<rparr>)
          ` set (getCalendarElements (p\<lparr>evaluate := ev\<rparr>))"
    by (simp add: getAvailableCalendars_def scanInto_def getCalendarItems_def
        evaluate_irrelevant_passes image_image)
  also have "\<dots> = set (getAvailableCalendars (scanInto p w))"
    by (simp add: getAvailableCalendars_def scanInto_def getCalendarItems_def els image_image)
  finally have infos: "set (getAvailableCalendars (scanInto (p\<lparr>evaluate := ev\<rparr>) w))
      = set (getAvailableCalendars (scanInto p w))" .
  have again: "fst (handleGetCalendars (snd (handleGetCalendars (scanInto p w))))
      = fst (handleGetCalendars (scanInto p w))"
    by (simp add: handleGetCalendars_def getAvailableCalendars_def Let_def)
  have frame: "snd (handleGetCalendars (scanInto p w)) = (scanInto p w)\<lparr>isInitialized := True\<rparr>"
    by (cases "isInitialized (scanInto p w)") (simp_all add: handleGetCalendars_def Let_def)
  from els infos getAvailableCalendars_scanInto [of p w] again frame show ?thesis
    by (intro conjI)
qed

theorem C9_scan_repeatable_witness:
  "evaluate listPage (Latin ''calendar'') = [3, 6]
   \<and> getAvailableCalendars (scanInto listPage (idleWorld [])) =
       [\<lparr>info_id = ''cal_work_work_1'', info_name = ''Work'', info_visible = True\<rparr>,
        \<lparr>info_id = ''cal_team_team_3'', info_name = ''Team'', info_visible = False\<rparr>]
   \<and> set (getCalendarElements (listPage\<lparr>evaluate := \<lambda>pattern. rev (evaluate listPage pattern)\<rparr>))
       = set (getCalendarElements listPage)
   \<and> set (getAvailableCalendars
        (scanInto (listPage\<lparr>evaluate := \<lambda>pattern. rev (evaluate listPage pattern)\<rparr>) (idleWorld [])))
       = set (getAvailableCalendars (scanInto listPage (idleWorld [])))"
proof -
  have e: "evaluate listPage (Latin ''calendar'') = [3, 6]"
    by (simp add: listPage_def listEvaluate_def)
  have a: "getAvailableCalendars (scanInto listPage (idleWorld [])) =
       [\<lparr>info_id = ''cal_work_work_1'', info_name = ''Work'', info_visible = True\<rparr>,
        \<lparr>info_id = ''cal_team_team_3'', info_name = ''Team'', info_visible = False\<rparr>]"
    by code_simp
  have h: "\<forall>pattern. set (rev (evaluate listPage pattern)) = set (evaluate listPage pattern)"
    by simp
  from C9_scan_repeatable [of "\<lambda>pattern. rev (evaluate listPage pattern)" listPage "idleWorld []", OF h] e a
  show ?thesis
    by blast
qed



end
